theory Spec2Isabelle
  imports Main "HOL-Library.Word"
begin

section \<open>The client of v3/v3.go\<close>

text \<open>
  The Go package \<open>coingecko\<close> (file \<open>v3/v3.go\<close>) is a thin HTTP client: every
  operation builds a URL, issues one GET through a caller-supplied transport and decodes
  the JSON body. The embedding keeps that shape. Go strings and byte slices are
  \<open>string\<close> (lists of 8-bit characters), Go \<open>int\<close> is \<open>int\<close> (the code only
  compares and prints integers, it never computes with them), a Go pointer that may be
  \<open>nil\<close> is an \<open>option\<close>.

  What the program calls in the standard library is either written out (\<open>fmt\<close>,
  \<open>net/url\<close>, \<open>strings.Join\<close>) or taken as a parameter where its behaviour is a
  table or the outside world (\<open>strings.ToLower\<close> on Unicode, the parsing of a URL, the
  transport, the type-directed part of \<open>encoding/json\<close>).
\<close>

subsection \<open>Errors and outcomes\<close>

text \<open>
  Every error of the package is an opaque Go \<open>error\<close>. The constructors record where it
  was made: \<open>Errorf\<close> is \<open>fmt.Errorf\<close> with the formatted message,
  \<open>RequestError\<close> comes from \<open>http.NewRequestWithContext\<close>, \<open>TransportError\<close> from
  \<open>client.Do\<close>, \<open>ReadError\<close> from \<open>ioutil.ReadAll\<close> and \<open>UnmarshalError\<close> from
  \<open>json.Unmarshal\<close>.
\<close>

datatype error =
    Errorf string
  | RequestError string
  | TransportError string
  | ReadError string
  | UnmarshalError string

text \<open>
  An operation returns a Go pair \<open>(result, err)\<close>, where both may be \<open>nil\<close> and both may
  be set, or it panics on a nil pointer dereference.
\<close>

datatype 'a outcome = Return 'a "error option" | Panic

subsection \<open>Requests, responses and the transport\<close>

record 'ctx request =
  req_ctx :: 'ctx
  req_method :: string
  req_url :: string
  req_header :: "(string \<times> string list) list"

text \<open>
  \<open>StatusCode\<close> and \<open>Body\<close> of \<open>http.Response\<close>. The body is a stream; \<open>Body\<close> holds
  what \<open>ioutil.ReadAll\<close> gets from it: the read error (\<open>Inl\<close>) or all the bytes.
\<close>

record response =
  StatusCode :: int
  Body :: "string + string"

text \<open>
  The transport (\<open>*http.Client\<close>): what \<open>Do\<close> answers to a request, a transport error
  (\<open>Inl\<close>) or a response. Cancellation through the context is one of the transport errors.
\<close>

type_synonym 'ctx http_client = "'ctx request \<Rightarrow> string + response"

text \<open>
  The requests handed to the transport so far, oldest first. Every operation takes this
  list and returns it extended by the requests it issued.
\<close>

type_synonym 'ctx wire = "'ctx request list"

record 'ctx Client =
  httpClient :: "'ctx http_client"
  apiKey :: string
  url :: string

text \<open>
  The standard library as far as it is a parameter: \<open>strings.ToLower\<close>, the error (if any)
  with which \<open>http.NewRequestWithContext\<close> refuses a context and a URL (nil context,
  URL that does not parse), and \<open>http.DefaultClient\<close>.
\<close>

record 'ctx stdlib =
  ToLower :: "string \<Rightarrow> string"
  request_error :: "'ctx \<Rightarrow> string \<Rightarrow> string option"
  DefaultClient :: "'ctx http_client"

subsection \<open>Formatting: \<open>fmt\<close> and the package \<open>format\<close>\<close>

definition digit_char :: "nat \<Rightarrow> char" where
  "digit_char d = ''0123456789'' ! d"

fun nat_digits :: "nat \<Rightarrow> string" where
  "nat_digits n = (if n < 10 then [digit_char n] else nat_digits (n div 10) @ [digit_char (n mod 10)])"

declare nat_digits.simps [simp del]

text \<open>The verb \<open>%d\<close> of \<open>fmt\<close> on an \<open>int\<close>: decimal, with a minus sign when negative.\<close>

definition fmt_d :: "int \<Rightarrow> string" where
  "fmt_d i = (if i < 0 then CHR ''-'' # nat_digits (nat (- i)) else nat_digits (nat i))"

text \<open>
  Modelled from the spec: \<open>format.Bool2String\<close> belongs to this repository but is not
  under src/. The spec has the boolean flags "serialized as the literal strings
  "true"/"false"".
\<close>

definition Bool2String :: "bool \<Rightarrow> string" where
  "Bool2String b = (if b then ''true'' else ''false'')"

subsection \<open>Construction\<close>

definition baseURL :: string where
  "baseURL = ''https://api.coingecko.com/api/v3''"

definition proURL :: string where
  "proURL = ''https://pro-api.coingecko.com/api/v3''"

definition NewClientWithURL ::
  "'ctx stdlib \<Rightarrow> 'ctx http_client option \<Rightarrow> string \<Rightarrow> string \<Rightarrow> 'ctx Client" where
  "NewClientWithURL sl hc u key =
     (let hc' = (case hc of None \<Rightarrow> DefaultClient sl | Some h \<Rightarrow> h)
      in \<lparr>httpClient = hc', apiKey = key, url = u\<rparr>)"

definition NewClient :: "'ctx stdlib \<Rightarrow> 'ctx http_client option \<Rightarrow> string \<Rightarrow> 'ctx Client" where
  "NewClient sl hc key =
     (let u = baseURL;
          u' = (if key \<noteq> [] then proURL else u)
      in NewClientWithURL sl hc u' key)"

subsection \<open>The request helper\<close>

definition status_message :: "int \<Rightarrow> string" where
  \<open>status_message code = ''{"status": {"error_code": '' @ fmt_d code @ ''}}''\<close>

definition doReq ::
  "'ctx request \<Rightarrow> 'ctx http_client \<Rightarrow> 'ctx wire \<Rightarrow> (error + string) \<times> 'ctx wire" where
  "doReq req client w =
     (let w' = w @ [req] in
      case client req of
        Inl e \<Rightarrow> (Inl (TransportError e), w')
      | Inr resp \<Rightarrow>
          (case Body resp of
             Inl e \<Rightarrow> (Inl (ReadError e), w')
           | Inr body \<Rightarrow>
               if 200 \<noteq> StatusCode resp then
                 (if length body \<noteq> 0 then (Inl (Errorf body), w')
                  else (Inl (Errorf (status_message (StatusCode resp))), w'))
               else (Inr body, w')))"

definition NewRequestWithContext ::
  "'ctx stdlib \<Rightarrow> 'ctx \<Rightarrow> string \<Rightarrow> string \<Rightarrow> error + 'ctx request" where
  "NewRequestWithContext sl ctx method u =
     (case request_error sl ctx u of
        Some e \<Rightarrow> Inl (RequestError e)
      | None \<Rightarrow> Inr \<lparr>req_ctx = ctx, req_method = method, req_url = u, req_header = []\<rparr>)"

definition MakeReq ::
  "'ctx stdlib \<Rightarrow> 'ctx Client \<Rightarrow> 'ctx \<Rightarrow> string \<Rightarrow> 'ctx wire \<Rightarrow> (error + string) \<times> 'ctx wire" where
  "MakeReq sl c ctx u w =
     (case NewRequestWithContext sl ctx ''GET'' u of
        Inl err \<Rightarrow> (Inl err, w)
      | Inr req \<Rightarrow>
          (let req' = (if apiKey c \<noteq> []
                       then req\<lparr>req_header := [(''X-Cg-Pro-Api-Key'', [apiKey c])]\<rparr>
                       else req)
           in doReq req' (httpClient c) w))"

text \<open>
  The request that \<open>MakeReq\<close> hands to the transport for a URL it could build a request
  from: a GET with the caller's context, and the key header when the client has a key.
\<close>

definition sent_request :: "'ctx Client \<Rightarrow> 'ctx \<Rightarrow> string \<Rightarrow> 'ctx request" where
  "sent_request c ctx u =
     \<lparr>req_ctx = ctx, req_method = ''GET'', req_url = u,
      req_header = (if apiKey c \<noteq> [] then [(''X-Cg-Pro-Api-Key'', [apiKey c])] else [])\<rparr>"

subsection \<open>\<open>net/url\<close>: query values and their encoding\<close>

text \<open>
  \<open>url.Values\<close> is a \<open>map[string][]string\<close>. It is an association list with one entry
  for each key; \<open>Encode\<close> sorts the keys, so the order of the entries is not observable.
\<close>

type_synonym Values = "(string \<times> string list) list"

fun Values_Add :: "string \<Rightarrow> string \<Rightarrow> Values \<Rightarrow> Values" where
  "Values_Add key v [] = [(key, [v])]"
| "Values_Add key v ((k, vs) # m) =
     (if k = key then (k, vs @ [v]) # m else (k, vs) # Values_Add key v m)"

fun Values_Set :: "string \<Rightarrow> string \<Rightarrow> Values \<Rightarrow> Values" where
  "Values_Set key v [] = [(key, [v])]"
| "Values_Set key v ((k, vs) # m) =
     (if k = key then (k, [v]) # m else (k, vs) # Values_Set key v m)"

definition Values_Has :: "Values \<Rightarrow> string \<Rightarrow> bool" where
  "Values_Has m key = (map_of m key \<noteq> None)"

definition upperhex :: string where
  "upperhex = ''0123456789ABCDEF''"

text \<open>
  \<open>shouldEscape\<close> in the mode \<open>encodeQueryComponent\<close>: letters, digits and \<open>-_.~\<close> stay,
  every other byte is escaped.
\<close>

definition shouldEscape :: "char \<Rightarrow> bool" where
  "shouldEscape c =
     (let n = (of_char c :: nat) in
      if (97 \<le> n \<and> n \<le> 122) \<or> (65 \<le> n \<and> n \<le> 90) \<or> (48 \<le> n \<and> n \<le> 57) then False
      else if c \<in> set ''-_.~'' then False
      else True)"

definition escape_byte :: "char \<Rightarrow> string" where
  "escape_byte c =
     (if c = CHR '' '' then ''+''
      else if shouldEscape c
      then [CHR ''%'', upperhex ! ((of_char c :: nat) div 16), upperhex ! ((of_char c :: nat) mod 16)]
      else [c])"

definition QueryEscape :: "string \<Rightarrow> string" where
  "QueryEscape s = concat (map escape_byte s)"

text \<open>Go compares strings byte by byte.\<close>

fun str_less :: "string \<Rightarrow> string \<Rightarrow> bool" where
  "str_less [] [] = False"
| "str_less [] (y # ys) = True"
| "str_less (x # xs) [] = False"
| "str_less (x # xs) (y # ys) =
     (if (of_char x :: nat) < of_char y then True
      else if x = y then str_less xs ys else False)"

fun insert_key :: "string \<Rightarrow> string list \<Rightarrow> string list" where
  "insert_key k [] = [k]"
| "insert_key k (x # xs) = (if str_less x k then x # insert_key k xs else k # x # xs)"

fun sort_keys :: "string list \<Rightarrow> string list" where
  "sort_keys [] = []"
| "sort_keys (k # ks) = insert_key k (sort_keys ks)"

text \<open>\<open>strings.Join\<close>.\<close>

fun Join :: "string list \<Rightarrow> string \<Rightarrow> string" where
  "Join [] sep = []"
| "Join [x] sep = x"
| "Join (x # y # ys) sep = x @ sep @ Join (y # ys) sep"

text \<open>
  The fields \<open>key=value\<close> that \<open>Encode\<close> writes, in its order: keys sorted, the values of a
  key in the order they were added, both escaped.
\<close>

definition Values_fields :: "Values \<Rightarrow> string list" where
  "Values_fields m =
     concat (map (\<lambda>k. map (\<lambda>v. QueryEscape k @ ''='' @ QueryEscape v)
                            (case map_of m k of None \<Rightarrow> [] | Some vs \<Rightarrow> vs))
                 (sort_keys (map fst m)))"

definition Values_Encode :: "Values \<Rightarrow> string" where
  "Values_Encode m = Join (Values_fields m) ''&''"

subsection \<open>\<open>encoding/json\<close>\<close>

text \<open>
  \<open>json.Unmarshal\<close> is directed by the Go type of its target, and the types of the package
  \<open>types\<close> are not part of the file. So the decoding of a document into a fresh value of
  a type is a parameter of each operation, with the three results the library has: the
  document is not JSON and nothing is stored; the document is JSON but a value in it does
  not fit its field, and decoding goes on, stores what fits and reports the first such
  error; the document is decoded.
\<close>

datatype 'a decoded = SyntaxError string | TypeError 'a string | Decoded 'a

type_synonym 'a decoder = "string \<Rightarrow> 'a decoded"

text \<open>
  The one document the library treats before it looks at the type is the literal
  \<open>null\<close>, alone between optional JSON white space: a pointer, slice or map is set to
  \<open>nil\<close>, any other target is left as it is, and there is no error.
\<close>

definition json_space :: "char \<Rightarrow> bool" where
  "json_space c = (c = CHR '' '' \<or> c = CHR 0x09 \<or> c = CHR 0x0A \<or> c = CHR 0x0D)"

definition null_literal :: "string \<Rightarrow> bool" where
  "null_literal body =
     (dropWhile json_space (rev (dropWhile json_space (rev body))) = ''null'')"

text \<open>
  \<open>json.Unmarshal(body, &data)\<close> for a variable \<open>data\<close> of a pointer or slice type that
  holds \<open>nil\<close>: the value of \<open>data\<close> afterwards, and the error.
\<close>

definition Unmarshal_nil :: "'a decoder \<Rightarrow> string \<Rightarrow> 'a option \<times> error option" where
  "Unmarshal_nil dec body =
     (if null_literal body then (None, None)
      else case dec body of
             SyntaxError e \<Rightarrow> (None, Some (UnmarshalError e))
           | TypeError v e \<Rightarrow> (Some v, Some (UnmarshalError e))
           | Decoded v \<Rightarrow> (Some v, None))"

text \<open>
  \<open>json.Unmarshal(body, &m)\<close> for a variable \<open>m\<close> that holds the zero value of a struct
  type, or an empty map: the value of \<open>m\<close> afterwards, and the error. (A map set to
  \<open>nil\<close> by \<open>null\<close> reads like the empty map.)
\<close>

definition Unmarshal_zero :: "'a decoder \<Rightarrow> string \<Rightarrow> 'a \<Rightarrow> 'a \<times> error option" where
  "Unmarshal_zero dec body zero =
     (if null_literal body then (zero, None)
      else case dec body of
             SyntaxError e \<Rightarrow> (zero, Some (UnmarshalError e))
           | TypeError v e \<Rightarrow> (v, Some (UnmarshalError e))
           | Decoded v \<Rightarrow> (v, None))"

subsection \<open>The packages \<open>types\<close> and \<open>format\<close>\<close>

text \<open>
  The response schemas of the package \<open>types\<close> are not part of the file. An operation
  that only decodes into a schema and returns it is polymorphic in the schema; the three
  envelopes whose field the code reads, and the result that the code builds itself, are
  records with the field left polymorphic. A slice that may be \<open>nil\<close> is an \<open>option\<close>.
\<close>

record 'v types_SimpleSinglePrice =
  ID :: string
  Currency :: string
  MarketPrice :: 'v

record 'i types_EventsCountries =
  Data :: "'i list option"

record 'r types_ExchangeRatesResponse =
  Rates :: 'r

record 'g types_GlobalResponse =
  Data :: 'g

text \<open>
  What the code uses of the packages \<open>format\<close> and \<open>types\<close> and the spec does not
  describe: the function \<open>format.Int2String\<close> and the constant
  \<open>types.OrderTypeObject.MarketCapDesc\<close>.
\<close>

record packages =
  Int2String :: "int \<Rightarrow> string"
  MarketCapDesc :: string

text \<open>
  A \<open>map[string]map[string]float32\<close>, as the association list of its rows. The value type
  is left open: the code moves prices, it does not compute with them, and only needs the
  zero value that a missing key reads as.
\<close>

type_synonym 'v prices = "(string \<times> (string \<times> 'v) list) list"

subsection \<open>The operations\<close>

definition Ping ::
  "'ctx stdlib \<Rightarrow> 'a decoder \<Rightarrow> 'ctx Client \<Rightarrow> 'ctx \<Rightarrow> 'ctx wire \<Rightarrow> 'a option outcome \<times> 'ctx wire" where
  "Ping sl dec c ctx w =
     (let u = url c @ ''/ping'' in
      case MakeReq sl c ctx u w of
        (Inl err, w') \<Rightarrow> (Return None (Some err), w')
      | (Inr resp, w') \<Rightarrow>
          (case Unmarshal_nil dec resp of
             (data, Some err) \<Rightarrow> (Return None (Some err), w')
           | (data, None) \<Rightarrow> (Return data None, w')))"

definition SimplePrice_url :: "'ctx Client \<Rightarrow> string list \<Rightarrow> string list \<Rightarrow> string" where
  "SimplePrice_url c ids vsCurrencies =
     (let params = [];
          idsParam = Join ids '','';
          vsCurrenciesParam = Join vsCurrencies '','';
          params = Values_Add ''ids'' idsParam params;
          params = Values_Add ''vs_currencies'' vsCurrenciesParam params
      in url c @ ''/simple/price?'' @ Values_Encode params)"

definition SimplePrice ::
  "'ctx stdlib \<Rightarrow> 'v prices decoder \<Rightarrow> 'ctx Client \<Rightarrow> 'ctx \<Rightarrow> string list \<Rightarrow> string list \<Rightarrow>
   'ctx wire \<Rightarrow> 'v prices option outcome \<times> 'ctx wire" where
  "SimplePrice sl dec c ctx ids vsCurrencies w =
     (let u = SimplePrice_url c ids vsCurrencies in
      case MakeReq sl c ctx u w of
        (Inl err, w') \<Rightarrow> (Return None (Some err), w')
      | (Inr resp, w') \<Rightarrow>
          (case Unmarshal_zero dec resp [] of
             (t, Some err) \<Rightarrow> (Return None (Some err), w')
           | (t, None) \<Rightarrow> (Return (Some t) None, w')))"

text \<open>
  Indexing a Go map: a missing key reads as the zero value, which for a row is the
  \<open>nil\<close> map (length 0) and for a price is \<open>0\<close>.
\<close>

definition row_of :: "'v prices \<Rightarrow> string \<Rightarrow> (string \<times> 'v) list" where
  "row_of t k = (case map_of t k of None \<Rightarrow> [] | Some r \<Rightarrow> r)"

definition price_of :: "(string \<times> 'v) list \<Rightarrow> string \<Rightarrow> 'v::zero" where
  "price_of r k = (case map_of r k of None \<Rightarrow> 0 | Some v \<Rightarrow> v)"

definition SimpleSinglePrice ::
  "'ctx stdlib \<Rightarrow> 'v prices decoder \<Rightarrow> 'ctx Client \<Rightarrow> 'ctx \<Rightarrow> string \<Rightarrow> string \<Rightarrow>
   'ctx wire \<Rightarrow> ('v::zero) types_SimpleSinglePrice option outcome \<times> 'ctx wire" where
  "SimpleSinglePrice sl dec c ctx id' vsCurrency w =
     (let idParam = [ToLower sl id'];
          vcParam = [ToLower sl vsCurrency] in
      case SimplePrice sl dec c ctx idParam vcParam w of
        (Panic, w') \<Rightarrow> (Panic, w')
      | (Return t (Some err), w') \<Rightarrow> (Return None (Some err), w')
      | (Return None None, w') \<Rightarrow> (Panic, w')
      | (Return (Some t) None, w') \<Rightarrow>
          (let curr = row_of t id' in
           if length curr = 0
           then (Return None (Some (Errorf ''id or vsCurrency not existed'')), w')
           else (Return (Some \<lparr>ID = id', Currency = vsCurrency,
                                MarketPrice = price_of curr vsCurrency\<rparr>) None, w')))"

definition SimpleSupportedVSCurrencies ::
  "'ctx stdlib \<Rightarrow> 'a decoder \<Rightarrow> 'ctx Client \<Rightarrow> 'ctx \<Rightarrow> 'ctx wire \<Rightarrow> 'a option outcome \<times> 'ctx wire" where
  "SimpleSupportedVSCurrencies sl dec c ctx w =
     (let u = url c @ ''/simple/supported_vs_currencies'' in
      case MakeReq sl c ctx u w of
        (Inl err, w') \<Rightarrow> (Return None (Some err), w')
      | (Inr resp, w') \<Rightarrow>
          (case Unmarshal_nil dec resp of
             (data, Some err) \<Rightarrow> (Return None (Some err), w')
           | (data, None) \<Rightarrow> (Return data None, w')))"

definition CoinsList ::
  "'ctx stdlib \<Rightarrow> 'a decoder \<Rightarrow> 'ctx Client \<Rightarrow> 'ctx \<Rightarrow> bool \<Rightarrow> 'ctx wire \<Rightarrow>
   'a option outcome \<times> 'ctx wire" where
  "CoinsList sl dec c ctx includePlatform w =
     (let params = [];
          params = Values_Set ''include_platform'' (Bool2String includePlatform) params;
          u = url c @ ''/coins/list?'' @ Values_Encode params in
      case MakeReq sl c ctx u w of
        (Inl err, w') \<Rightarrow> (Return None (Some err), w')
      | (Inr resp, w') \<Rightarrow>
          (case Unmarshal_nil dec resp of
             (data, Some err) \<Rightarrow> (Return None (Some err), w')
           | (data, None) \<Rightarrow> (Return data None, w')))"

text \<open>The query values of \<open>CoinsMarket\<close>, as the code adds them after its check.\<close>

definition CoinsMarket_params ::
  "packages \<Rightarrow> string \<Rightarrow> string list \<Rightarrow> string \<Rightarrow> int \<Rightarrow> int \<Rightarrow> bool \<Rightarrow> string list \<Rightarrow> Values" where
  "CoinsMarket_params pk vsCurrency ids order perPage page sparkline priceChangePercentage =
     (let params = [];
          params = Values_Add ''vs_currency'' vsCurrency params;
          order = (if length order = 0 then MarketCapDesc pk else order);
          params = Values_Add ''order'' order params;
          params = (if length ids \<noteq> 0 then Values_Add ''ids'' (Join ids '','') params else params);
          params = (if perPage > 0 \<and> perPage \<le> 250
                    then Values_Add ''page'' (Int2String pk page)
                           (Values_Add ''per_page'' (Int2String pk perPage) params)
                    else params);
          params = Values_Add ''sparkline'' (Bool2String sparkline) params;
          params = (if length priceChangePercentage \<noteq> 0
                    then Values_Add ''price_change_percentage'' (Join priceChangePercentage '','') params
                    else params)
      in params)"

definition CoinsMarket ::
  "'ctx stdlib \<Rightarrow> packages \<Rightarrow> 'a decoder \<Rightarrow> 'ctx Client \<Rightarrow> 'ctx \<Rightarrow> string \<Rightarrow> string list \<Rightarrow> string \<Rightarrow>
   int \<Rightarrow> int \<Rightarrow> bool \<Rightarrow> string list \<Rightarrow> 'ctx wire \<Rightarrow> 'a option outcome \<times> 'ctx wire" where
  "CoinsMarket sl pk dec c ctx vsCurrency ids order perPage page sparkline priceChangePercentage w =
     (if length vsCurrency = 0 then (Return None (Some (Errorf ''vs_currency is required'')), w)
      else
        let params = CoinsMarket_params pk vsCurrency ids order perPage page sparkline
                       priceChangePercentage;
            u = url c @ ''/coins/markets?'' @ Values_Encode params in
        case MakeReq sl c ctx u w of
          (Inl err, w') \<Rightarrow> (Return None (Some err), w')
        | (Inr resp, w') \<Rightarrow>
            (case Unmarshal_nil dec resp of
               (data, Some err) \<Rightarrow> (Return None (Some err), w')
             | (data, None) \<Rightarrow> (Return data None, w')))"

text \<open>The query values of \<open>CoinsID\<close>, as the code adds them after its check.\<close>

definition CoinsID_params :: "bool \<Rightarrow> bool \<Rightarrow> bool \<Rightarrow> bool \<Rightarrow> bool \<Rightarrow> bool \<Rightarrow> Values" where
  "CoinsID_params localization tickers marketData communityData developerData sparkline =
     (let params = [];
          params = Values_Add ''localization'' (Bool2String sparkline) params;
          params = Values_Add ''tickers'' (Bool2String tickers) params;
          params = Values_Add ''market_data'' (Bool2String marketData) params;
          params = Values_Add ''community_data'' (Bool2String communityData) params;
          params = Values_Add ''developer_data'' (Bool2String developerData) params;
          params = Values_Add ''sparkline'' (Bool2String sparkline) params
      in params)"

definition CoinsID ::
  "'ctx stdlib \<Rightarrow> 'a decoder \<Rightarrow> 'ctx Client \<Rightarrow> 'ctx \<Rightarrow> string \<Rightarrow> bool \<Rightarrow> bool \<Rightarrow> bool \<Rightarrow> bool \<Rightarrow>
   bool \<Rightarrow> bool \<Rightarrow> 'ctx wire \<Rightarrow> 'a option outcome \<times> 'ctx wire" where
  "CoinsID sl dec c ctx id' localization tickers marketData communityData developerData sparkline w =
     (if length id' = 0 then (Return None (Some (Errorf ''id is required'')), w)
      else
        let params = CoinsID_params localization tickers marketData communityData developerData
                       sparkline;
            u = url c @ ''/coins/'' @ id' @ ''?'' @ Values_Encode params in
        case MakeReq sl c ctx u w of
          (Inl err, w') \<Rightarrow> (Return None (Some err), w')
        | (Inr resp, w') \<Rightarrow>
            (case Unmarshal_nil dec resp of
               (data, Some err) \<Rightarrow> (Return None (Some err), w')
             | (data, None) \<Rightarrow> (Return data None, w')))"

definition CoinsIDTickers ::
  "'ctx stdlib \<Rightarrow> packages \<Rightarrow> 'a decoder \<Rightarrow> 'ctx Client \<Rightarrow> 'ctx \<Rightarrow> string \<Rightarrow> int \<Rightarrow> 'ctx wire \<Rightarrow>
   'a option outcome \<times> 'ctx wire" where
  "CoinsIDTickers sl pk dec c ctx id' page w =
     (if length id' = 0 then (Return None (Some (Errorf ''id is required'')), w)
      else
        let params = [];
            params = (if page > 0 then Values_Add ''page'' (Int2String pk page) params else params);
            u = url c @ ''/coins/'' @ id' @ ''/tickers?'' @ Values_Encode params in
        case MakeReq sl c ctx u w of
          (Inl err, w') \<Rightarrow> (Return None (Some err), w')
        | (Inr resp, w') \<Rightarrow>
            (case Unmarshal_nil dec resp of
               (data, Some err) \<Rightarrow> (Return None (Some err), w')
             | (data, None) \<Rightarrow> (Return data None, w')))"

definition CoinsIDHistory ::
  "'ctx stdlib \<Rightarrow> 'a decoder \<Rightarrow> 'ctx Client \<Rightarrow> 'ctx \<Rightarrow> string \<Rightarrow> string \<Rightarrow> bool \<Rightarrow> 'ctx wire \<Rightarrow>
   'a option outcome \<times> 'ctx wire" where
  "CoinsIDHistory sl dec c ctx id' date localization w =
     (if length id' = 0 \<or> length date = 0
      then (Return None (Some (Errorf ''id and date is required'')), w)
      else
        let params = [];
            params = Values_Add ''date'' date params;
            params = Values_Add ''localization'' (Bool2String localization) params;
            u = url c @ ''/coins/'' @ id' @ ''/history?'' @ Values_Encode params in
        case MakeReq sl c ctx u w of
          (Inl err, w') \<Rightarrow> (Return None (Some err), w')
        | (Inr resp, w') \<Rightarrow>
            (case Unmarshal_nil dec resp of
               (data, Some err) \<Rightarrow> (Return None (Some err), w')
             | (data, None) \<Rightarrow> (Return data None, w')))"

text \<open>
  \<open>CoinsIDMarketChart\<close> decodes into a struct value \<open>m\<close>, not into a pointer; \<open>zero\<close> is
  \<open>types.CoinsIDMarketChart{}\<close>. It returns \<open>&m\<close> on both paths.
\<close>

definition CoinsIDMarketChart ::
  "'ctx stdlib \<Rightarrow> 'a decoder \<Rightarrow> 'a \<Rightarrow> 'ctx Client \<Rightarrow> 'ctx \<Rightarrow> string \<Rightarrow> string \<Rightarrow> string \<Rightarrow>
   'ctx wire \<Rightarrow> 'a option outcome \<times> 'ctx wire" where
  "CoinsIDMarketChart sl dec zero c ctx id' vs_currency days w =
     (if length id' = 0 \<or> length vs_currency = 0 \<or> length days = 0
      then (Return None (Some (Errorf ''id, vs_currency, and days is required'')), w)
      else
        let params = [];
            params = Values_Add ''vs_currency'' vs_currency params;
            params = Values_Add ''days'' days params;
            u = url c @ ''/coins/'' @ id' @ ''/market_chart?'' @ Values_Encode params in
        case MakeReq sl c ctx u w of
          (Inl err, w') \<Rightarrow> (Return None (Some err), w')
        | (Inr resp, w') \<Rightarrow>
            (case Unmarshal_zero dec resp zero of
               (m, Some err) \<Rightarrow> (Return (Some m) (Some err), w')
             | (m, None) \<Rightarrow> (Return (Some m) None, w')))"

definition EventsCountries ::
  "'ctx stdlib \<Rightarrow> 'i types_EventsCountries decoder \<Rightarrow> 'ctx Client \<Rightarrow> 'ctx \<Rightarrow> 'ctx wire \<Rightarrow>
   'i list option outcome \<times> 'ctx wire" where
  "EventsCountries sl dec c ctx w =
     (let u = url c @ ''/events/countries'' in
      case MakeReq sl c ctx u w of
        (Inl err, w') \<Rightarrow> (Return None (Some err), w')
      | (Inr resp, w') \<Rightarrow>
          (case Unmarshal_nil dec resp of
             (data, Some err) \<Rightarrow> (Return None (Some err), w')
           | (None, None) \<Rightarrow> (Panic, w')
           | (Some data, None) \<Rightarrow> (Return (types_EventsCountries.Data data) None, w')))"

definition EventsTypes ::
  "'ctx stdlib \<Rightarrow> 'a decoder \<Rightarrow> 'ctx Client \<Rightarrow> 'ctx \<Rightarrow> 'ctx wire \<Rightarrow> 'a option outcome \<times> 'ctx wire" where
  "EventsTypes sl dec c ctx w =
     (let u = url c @ ''/events/types'' in
      case MakeReq sl c ctx u w of
        (Inl err, w') \<Rightarrow> (Return None (Some err), w')
      | (Inr resp, w') \<Rightarrow>
          (case Unmarshal_nil dec resp of
             (data, Some err) \<Rightarrow> (Return None (Some err), w')
           | (data, None) \<Rightarrow> (Return data None, w')))"

definition ExchangeRates ::
  "'ctx stdlib \<Rightarrow> 'r types_ExchangeRatesResponse decoder \<Rightarrow> 'ctx Client \<Rightarrow> 'ctx \<Rightarrow> 'ctx wire \<Rightarrow>
   'r option outcome \<times> 'ctx wire" where
  "ExchangeRates sl dec c ctx w =
     (let u = url c @ ''/exchange_rates'' in
      case MakeReq sl c ctx u w of
        (Inl err, w') \<Rightarrow> (Return None (Some err), w')
      | (Inr resp, w') \<Rightarrow>
          (case Unmarshal_nil dec resp of
             (data, Some err) \<Rightarrow> (Return None (Some err), w')
           | (None, None) \<Rightarrow> (Panic, w')
           | (Some data, None) \<Rightarrow> (Return (Some (Rates data)) None, w')))"

text \<open>\<open>types.AssetPlatforms\<close> is a type with \<open>nil\<close>, decoded into directly.\<close>

definition AssetPlatforms ::
  "'ctx stdlib \<Rightarrow> 'a decoder \<Rightarrow> 'ctx Client \<Rightarrow> 'ctx \<Rightarrow> 'ctx wire \<Rightarrow> 'a option outcome \<times> 'ctx wire" where
  "AssetPlatforms sl dec c ctx w =
     (let u = url c @ ''/asset_platforms'' in
      case MakeReq sl c ctx u w of
        (Inl err, w') \<Rightarrow> (Return None (Some err), w')
      | (Inr resp, w') \<Rightarrow>
          (case Unmarshal_nil dec resp of
             (data, Some err) \<Rightarrow> (Return None (Some err), w')
           | (data, None) \<Rightarrow> (Return data None, w')))"

definition Global ::
  "'ctx stdlib \<Rightarrow> 'g types_GlobalResponse decoder \<Rightarrow> 'ctx Client \<Rightarrow> 'ctx \<Rightarrow> 'ctx wire \<Rightarrow>
   'g option outcome \<times> 'ctx wire" where
  "Global sl dec c ctx w =
     (let u = url c @ ''/global'' in
      case MakeReq sl c ctx u w of
        (Inl err, w') \<Rightarrow> (Return None (Some err), w')
      | (Inr resp, w') \<Rightarrow>
          (case Unmarshal_nil dec resp of
             (data, Some err) \<Rightarrow> (Return None (Some err), w')
           | (None, None) \<Rightarrow> (Panic, w')
           | (Some data, None) \<Rightarrow> (Return (Some (types_GlobalResponse.Data data)) None, w')))"

subsection \<open>Reading a number back\<close>

text \<open>The value of a string of decimal digits, to check \<open>fmt_d\<close> against.\<close>

definition digits_value :: "string \<Rightarrow> nat" where
  "digits_value s = foldl (\<lambda>a c. 10 * a + (of_char c - 48)) 0 s"



subsection \<open>Mock collaborators\<close>

text \<open>
  Concrete collaborators on which the theorems below are run: a transport that answers
  every request with one status and body, a standard library that accepts every URL and
  lower-cases ASCII letters (\<open>strings.ToLower\<close> on ASCII input), decimal
  \<open>Int2String\<close>, a decoder that finds every document malformed, and a decoder for one
  price table, whose prices are \<open>float32\<close> bit patterns.
\<close>

definition static_client :: "int \<Rightarrow> string \<Rightarrow> 'ctx http_client" where
  "static_client code body req = Inr \<lparr>StatusCode = code, Body = Inr body\<rparr>"

definition get_request :: "string \<Rightarrow> unit request" where
  "get_request u = \<lparr>req_ctx = (), req_method = ''GET'', req_url = u, req_header = []\<rparr>"

definition ascii_lower_byte :: "char \<Rightarrow> char" where
  "ascii_lower_byte c =
     (case map_of (zip ''ABCDEFGHIJKLMNOPQRSTUVWXYZ'' ''abcdefghijklmnopqrstuvwxyz'') c of
        Some l \<Rightarrow> l
      | None \<Rightarrow> c)"

definition ascii_lower :: "string \<Rightarrow> string" where
  "ascii_lower s = map ascii_lower_byte s"

definition accept_url :: "unit \<Rightarrow> string \<Rightarrow> string option" where
  "accept_url ctx u = None"

definition mock_stdlib :: "unit stdlib" where
  "mock_stdlib =
     \<lparr>ToLower = ascii_lower, request_error = accept_url, DefaultClient = static_client 200 ''{}''\<rparr>"

definition mock_packages :: packages where
  "mock_packages = \<lparr>Int2String = fmt_d, MarketCapDesc = ''market_cap_desc''\<rparr>"

definition mock_Client :: "int \<Rightarrow> string \<Rightarrow> unit Client" where
  "mock_Client code body = NewClient mock_stdlib (Some (static_client code body)) []"

definition reject_decoder :: "string \<Rightarrow> 'a decoder" where
  "reject_decoder msg body = SyntaxError msg"


text \<open>
  A stand-in for the schema of the market chart, with two of its series, and what
  \<open>encoding/json\<close> makes of two documents for it: in the first the prices fit and the
  market caps are a number where a list is expected, so the prices are stored and a type
  error is reported; the second is not JSON.
\<close>

record mock_chart =
  chart_prices :: "(int \<times> int) list"
  chart_market_caps :: "(int \<times> int) list"

definition zero_chart :: mock_chart where
  "zero_chart = \<lparr>chart_prices = [], chart_market_caps = []\<rparr>"

definition chart_decoder :: "mock_chart decoder" where
  \<open>chart_decoder body =
     (if body = ''{"prices":[[1,2]],"market_caps":7}''
      then TypeError \<lparr>chart_prices = [(1, 2)], chart_market_caps = []\<rparr>
             ''json: cannot unmarshal number into Go struct field''
      else SyntaxError ''invalid character'')\<close>

definition bitcoin_usd :: "32 word prices" where
  "bitcoin_usd = [(''bitcoin'', [(''usd'', 0x40A00000)])]"

definition bitcoin_decoder :: "32 word prices decoder" where
  \<open>bitcoin_decoder body =
     (if body = ''{"bitcoin":{"usd":5}}'' then Decoded bitcoin_usd
      else SyntaxError ''unexpected document'')\<close>

section \<open>Properties\<close>

subsection \<open>\<open>fmt_d\<close> is decimal notation\<close>

lemma digit_char_value: "d < 10 \<Longrightarrow> of_char (digit_char d) - 48 = d"
proof -
  assume "d < 10"
  then have "d = 0 \<or> d = 1 \<or> d = 2 \<or> d = 3 \<or> d = 4 \<or> d = 5 \<or> d = 6 \<or> d = 7 \<or> d = 8 \<or> d = 9"
    by arith
  then show ?thesis
    by (auto simp add: digit_char_def)
qed

lemma digit_char_not_minus: "d < 10 \<Longrightarrow> digit_char d \<noteq> CHR ''-''"
proof -
  assume "d < 10"
  then have "d = 0 \<or> d = 1 \<or> d = 2 \<or> d = 3 \<or> d = 4 \<or> d = 5 \<or> d = 6 \<or> d = 7 \<or> d = 8 \<or> d = 9"
    by arith
  then show ?thesis
    by (auto simp add: digit_char_def)
qed

lemma digits_value_snoc: "digits_value (s @ [c]) = 10 * digits_value s + (of_char c - 48)"
  by (simp add: digits_value_def)

lemma digits_value_nat_digits: "digits_value (nat_digits n) = n"
proof (induction n rule: nat_digits.induct)
  case (1 n)
  show ?case
  proof (cases "n < 10")
    case True
    then show ?thesis
      by (simp add: nat_digits.simps [of n] digits_value_def digit_char_value)
  next
    case False
    then have "digits_value (nat_digits (n div 10)) = n div 10"
      using "1" by simp
    then show ?thesis
      using False
      by (simp add: nat_digits.simps [of n] digits_value_snoc digit_char_value)
  qed
qed

lemma nat_digits_hd: "\<exists>c cs. nat_digits n = c # cs \<and> c \<noteq> CHR ''-''"
proof (induction n rule: nat_digits.induct)
  case (1 n)
  show ?case
  proof (cases "n < 10")
    case True
    then show ?thesis
      by (simp add: nat_digits.simps [of n] digit_char_not_minus)
  next
    case False
    then obtain c cs where "nat_digits (n div 10) = c # cs" "c \<noteq> CHR ''-''"
      using "1" by blast
    then show ?thesis
      using False by (simp add: nat_digits.simps [of n])
  qed
qed

text \<open>Two status codes never print alike, so the printed code identifies the status.\<close>

lemma fmt_d_inj: "fmt_d a = fmt_d b \<Longrightarrow> a = b"
proof -
  assume eq: "fmt_d a = fmt_d b"
  obtain c cs where a: "nat_digits (nat a) = c # cs" "c \<noteq> CHR ''-''"
    using nat_digits_hd by blast
  obtain d ds where b: "nat_digits (nat b) = d # ds" "d \<noteq> CHR ''-''"
    using nat_digits_hd by blast
  consider "a < 0" "b < 0" | "0 \<le> a" "0 \<le> b" | "a < 0" "0 \<le> b" | "0 \<le> a" "b < 0"
    by linarith
  then show ?thesis
  proof cases
    case 1
    then have "nat_digits (nat (- a)) = nat_digits (nat (- b))"
      using eq by (simp add: fmt_d_def)
    then have "nat (- a) = nat (- b)"
      by (metis digits_value_nat_digits)
    then show ?thesis using 1 by simp
  next
    case 2
    then have "nat_digits (nat a) = nat_digits (nat b)"
      using eq by (simp add: fmt_d_def)
    then have "nat a = nat b"
      by (metis digits_value_nat_digits)
    then show ?thesis using 2 by simp
  next
    case 3
    then show ?thesis using eq b by (simp add: fmt_d_def)
  next
    case 4
    then show ?thesis using eq a by (simp add: fmt_d_def)
  qed
qed

lemma status_message_inj: "status_message a = status_message b \<Longrightarrow> a = b"
  by (simp add: status_message_def fmt_d_inj)





subsection \<open>Construction\<close>

text \<open>
  C8. \<open>NewClient\<close> gives the client the pro host exactly when the API key is not empty,
  and the public host otherwise. \<open>NewClientWithURL\<close> stores the URL it is given as it
  is, keeps a transport that is supplied and puts \<open>http.DefaultClient\<close> in the place of
  a \<open>nil\<close> one.
\<close>

theorem NewClient_selects_host:
  "(key \<noteq> [] \<longrightarrow> url (NewClient sl hc key) = ''https://pro-api.coingecko.com/api/v3'')
   \<and> (key = [] \<longrightarrow> url (NewClient sl hc key) = ''https://api.coingecko.com/api/v3'')
   \<and> ((url (NewClient sl hc key) = ''https://pro-api.coingecko.com/api/v3'') = (key \<noteq> []))
   \<and> url (NewClientWithURL sl hc u key) = u
   \<and> apiKey (NewClientWithURL sl hc u key) = key
   \<and> httpClient (NewClientWithURL sl None u key) = DefaultClient sl
   \<and> httpClient (NewClientWithURL sl (Some h) u key) = h"
  by (simp add: NewClient_def NewClientWithURL_def baseURL_def proURL_def)

theorem NewClient_selects_host_witness:
  "url (NewClient mock_stdlib None ''secret'') = ''https://pro-api.coingecko.com/api/v3''
   \<and> url (NewClient mock_stdlib None []) = ''https://api.coingecko.com/api/v3''
   \<and> url (NewClientWithURL mock_stdlib None ''http://localhost:8080'' []) = ''http://localhost:8080''
   \<and> httpClient (NewClientWithURL mock_stdlib None ''http://localhost:8080'' [])
       = DefaultClient mock_stdlib"
  using NewClient_selects_host [of "''secret''" mock_stdlib None "''http://localhost:8080''"]
    NewClient_selects_host [of "[]" mock_stdlib None "''http://localhost:8080''"]
  by simp

subsection \<open>The request helper\<close>

text \<open>
  C3, as the code has it. When the transport delivers a response and its body can be
  read, \<open>doReq\<close> returns the body exactly when the status code is 200, and returns an
  error made by \<open>fmt.Errorf\<close> for every other status code, the other 2xx codes
  included. In both cases the request has gone to the transport.
\<close>

theorem doReq_success_iff_200:
  assumes "client req = Inr resp" and "Body resp = Inr body"
  shows "((fst (doReq req client w) = Inr body) = (StatusCode resp = 200))
         \<and> ((\<exists>msg. fst (doReq req client w) = Inl (Errorf msg)) = (StatusCode resp \<noteq> 200))
         \<and> snd (doReq req client w) = w @ [req]"
  using assms by (auto simp add: doReq_def Let_def)

theorem doReq_success_iff_200_witness:
  "fst (doReq (get_request ''u'') (static_client 200 ''{}'') []) = Inr ''{}''
   \<and> (\<exists>msg. fst (doReq (get_request ''u'') (static_client 204 []) []) = Inl (Errorf msg))
   \<and> snd (doReq (get_request ''u'') (static_client 200 ''{}'') []) = [get_request ''u'']"
  using doReq_success_iff_200 [of "static_client 200 ''{}''" "get_request ''u''"
      "\<lparr>StatusCode = 200, Body = Inr ''{}''\<rparr>" "''{}''" "[]"]
    doReq_success_iff_200 [of "static_client 204 []" "get_request ''u''"
      "\<lparr>StatusCode = 204, Body = Inr []\<rparr>" "[]" "[]"]
  by (simp add: static_client_def)

text \<open>
  C3 as the spec words it (success for every status in the 2xx range) fails:
  status 201 is in the range, and \<open>doReq\<close> returns an error for it.
\<close>

theorem doReq_201_counterexample:
  \<open>(200 \<le> (201::int) \<and> (201::int) < 300)
   \<and> fst (doReq (get_request ''u'') (static_client 201 ''{"ok":true}'') [])
       = Inl (Errorf ''{"ok":true}'')\<close>
  by (simp add: doReq_def static_client_def)




subsection \<open>What reaches the transport\<close>

lemma snd_doReq: "snd (doReq req client w) = w @ [req]"
  by (simp add: doReq_def Let_def split: sum.splits)

lemma MakeReq_unfold:
  "MakeReq sl c ctx u w =
     (case request_error sl ctx u of
        Some e \<Rightarrow> (Inl (RequestError e), w)
      | None \<Rightarrow> doReq (sent_request c ctx u) (httpClient c) w)"
  by (simp add: MakeReq_def NewRequestWithContext_def sent_request_def Let_def split: option.splits)

lemma snd_MakeReq:
  "snd (MakeReq sl c ctx u w) =
     (case request_error sl ctx u of Some e \<Rightarrow> w | None \<Rightarrow> w @ [sent_request c ctx u])"
  by (simp add: MakeReq_unfold snd_doReq split: option.splits)

lemma QueryEscape_ids: "QueryEscape ''ids'' = ''ids''"
  by (simp add: QueryEscape_def escape_byte_def shouldEscape_def)

lemma QueryEscape_vs_currencies: "QueryEscape ''vs_currencies'' = ''vs_currencies''"
  by (simp add: QueryEscape_def escape_byte_def shouldEscape_def)

lemma SimplePrice_url_single:
  "SimplePrice_url c [a] [b] =
     url c @ ''/simple/price?ids='' @ QueryEscape a @ ''&vs_currencies='' @ QueryEscape b"
  by (simp add: SimplePrice_url_def Values_Encode_def Values_fields_def QueryEscape_ids
      QueryEscape_vs_currencies)

lemma snd_SimplePrice:
  "snd (SimplePrice sl dec c ctx ids vs w) = snd (MakeReq sl c ctx (SimplePrice_url c ids vs) w)"
  by (simp add: SimplePrice_def Let_def split: prod.splits sum.splits option.splits)

lemma snd_SimpleSinglePrice:
  "snd (SimpleSinglePrice sl dec c ctx id' vs w)
     = snd (SimplePrice sl dec c ctx [ToLower sl id'] [ToLower sl vs] w)"
  by (simp add: SimpleSinglePrice_def Let_def split: prod.splits outcome.splits option.splits)

text \<open>
  C7. Whatever the identifier and the currency, the only request that
  \<open>SimpleSinglePrice\<close> hands to the transport is the GET of \<open>/simple/price\<close> whose
  \<open>ids\<close> and \<open>vs_currencies\<close> are the lower-cased identifier and the lower-cased
  currency (URL-escaped); when no request can be built from that URL, nothing is sent.
\<close>

theorem SimpleSinglePrice_lowercases:
  "snd (SimpleSinglePrice sl dec c ctx id' vsCurrency w) =
     (let u = url c @ ''/simple/price?ids='' @ QueryEscape (ToLower sl id')
              @ ''&vs_currencies='' @ QueryEscape (ToLower sl vsCurrency)
      in case request_error sl ctx u of
           Some e \<Rightarrow> w
         | None \<Rightarrow> w @ [\<lparr>req_ctx = ctx, req_method = ''GET'', req_url = u,
                         req_header = (if apiKey c \<noteq> [] then [(''X-Cg-Pro-Api-Key'', [apiKey c])]
                                       else [])\<rparr>])"
  by (simp add: snd_SimpleSinglePrice snd_SimplePrice snd_MakeReq SimplePrice_url_single
      sent_request_def Let_def split: option.splits)

text \<open>
  C6. \<open>CoinsMarket\<close> with an empty \<open>vsCurrency\<close>, \<open>CoinsID\<close> and \<open>CoinsIDTickers\<close>
  with an empty \<open>id\<close>, \<open>CoinsIDHistory\<close> with an empty \<open>id\<close> or \<open>date\<close>, and
  \<open>CoinsIDMarketChart\<close> with an empty \<open>id\<close>, \<open>vs_currency\<close> or \<open>days\<close> return a
  \<open>nil\<close> result with the validation error, and the list of requests handed to the
  transport is the one they started with.
\<close>

theorem validation_before_request:
  "CoinsMarket sl pk d1 c ctx [] ids order perPage page sparkline priceChangePercentage w
     = (Return None (Some (Errorf ''vs_currency is required'')), w)
   \<and> CoinsID sl d2 c ctx [] localization tickers marketData communityData developerData sparkline w
     = (Return None (Some (Errorf ''id is required'')), w)
   \<and> CoinsIDTickers sl pk d3 c ctx [] page w
     = (Return None (Some (Errorf ''id is required'')), w)
   \<and> (id' = [] \<or> date = [] \<longrightarrow>
        CoinsIDHistory sl d4 c ctx id' date localization w
          = (Return None (Some (Errorf ''id and date is required'')), w))
   \<and> (id' = [] \<or> vs_currency = [] \<or> days = [] \<longrightarrow>
        CoinsIDMarketChart sl d5 zero c ctx id' vs_currency days w
          = (Return None (Some (Errorf ''id, vs_currency, and days is required'')), w))"
  by (simp add: CoinsMarket_def CoinsID_def CoinsIDTickers_def CoinsIDHistory_def
      CoinsIDMarketChart_def)


theorem SimpleSinglePrice_lowercases_witness:
  "snd (SimpleSinglePrice mock_stdlib (reject_decoder ''x'') (mock_Client 200 ''{}'') ()
          ''BitCoin'' ''USD'' [])
     = [get_request ''https://api.coingecko.com/api/v3/simple/price?ids=bitcoin&vs_currencies=usd'']"
  using SimpleSinglePrice_lowercases [of mock_stdlib "reject_decoder ''x''" "mock_Client 200 ''{}''"
      "()" "''BitCoin''" "''USD''" "[]"]
  by (simp add: mock_stdlib_def mock_Client_def NewClient_def NewClientWithURL_def baseURL_def
      accept_url_def get_request_def ascii_lower_def ascii_lower_byte_def QueryEscape_def
      escape_byte_def shouldEscape_def)

theorem validation_before_request_witness:
  "CoinsMarket mock_stdlib mock_packages (reject_decoder ''x'' :: unit decoder)
       (mock_Client 200 ''{}'') () [] [] [] 10 1 False [] []
     = (Return None (Some (Errorf ''vs_currency is required'')), [])
   \<and> CoinsID mock_stdlib (reject_decoder ''x'' :: unit decoder) (mock_Client 200 ''{}'') ()
       [] False False False False False False []
     = (Return None (Some (Errorf ''id is required'')), [])
   \<and> CoinsIDTickers mock_stdlib mock_packages (reject_decoder ''x'' :: unit decoder)
       (mock_Client 200 ''{}'') () [] 1 []
     = (Return None (Some (Errorf ''id is required'')), [])
   \<and> CoinsIDHistory mock_stdlib (reject_decoder ''x'' :: unit decoder) (mock_Client 200 ''{}'') ()
       ''bitcoin'' [] False []
     = (Return None (Some (Errorf ''id and date is required'')), [])
   \<and> CoinsIDMarketChart mock_stdlib (reject_decoder ''x'') () (mock_Client 200 ''{}'') ()
       ''bitcoin'' ''usd'' [] []
     = (Return None (Some (Errorf ''id, vs_currency, and days is required'')), [])"
  using validation_before_request [where sl = mock_stdlib and pk = mock_packages
      and ?d1.0 = "reject_decoder ''x'' :: unit decoder" and c = "mock_Client 200 ''{}''"
      and ctx = "()" and ids = "[]" and order = "[]" and perPage = 10 and page = 1
      and sparkline = False and priceChangePercentage = "[]" and w = "[]"
      and ?d2.0 = "reject_decoder ''x'' :: unit decoder" and tickers = False
      and marketData = False and communityData = False and developerData = False
      and ?d3.0 = "reject_decoder ''x'' :: unit decoder"
      and ?d4.0 = "reject_decoder ''x'' :: unit decoder" and id' = "''bitcoin''" and date = "[]"
      and localization = False
      and ?d5.0 = "reject_decoder ''x''" and zero = "()" and vs_currency = "''usd''" and days = "[]"]
  by simp


subsection \<open>Query strings\<close>

lemma QueryEscape_keys:
  "QueryEscape ''order'' = ''order''"
  "QueryEscape ''page'' = ''page''"
  "QueryEscape ''per_page'' = ''per_page''"
  "QueryEscape ''price_change_percentage'' = ''price_change_percentage''"
  "QueryEscape ''sparkline'' = ''sparkline''"
  "QueryEscape ''vs_currency'' = ''vs_currency''"
  "QueryEscape ''localization'' = ''localization''"
  "QueryEscape ''tickers'' = ''tickers''"
  "QueryEscape ''market_data'' = ''market_data''"
  "QueryEscape ''community_data'' = ''community_data''"
  "QueryEscape ''developer_data'' = ''developer_data''"
  by (simp_all add: QueryEscape_def escape_byte_def shouldEscape_def)

lemma QueryEscape_Bool2String: "QueryEscape (Bool2String b) = Bool2String b"
  by (simp add: Bool2String_def QueryEscape_def escape_byte_def shouldEscape_def)

lemma CoinsMarket_fields:
  "Values_fields (CoinsMarket_params pk vsCurrency ids order perPage page sparkline pcp) =
     (if ids \<noteq> [] then [''ids='' @ QueryEscape (Join ids '','')] else [])
     @ [''order='' @ QueryEscape (if order = [] then MarketCapDesc pk else order)]
     @ (if 0 < perPage \<and> perPage \<le> 250
        then [''page='' @ QueryEscape (Int2String pk page),
              ''per_page='' @ QueryEscape (Int2String pk perPage)]
        else [])
     @ (if pcp \<noteq> [] then [''price_change_percentage='' @ QueryEscape (Join pcp '','')] else [])
     @ [''sparkline='' @ Bool2String sparkline, ''vs_currency='' @ QueryEscape vsCurrency]"
  by (simp add: CoinsMarket_params_def Values_fields_def Let_def QueryEscape_keys QueryEscape_ids
      QueryEscape_Bool2String)

lemma CoinsID_fields:
  "Values_fields (CoinsID_params localization tickers marketData communityData developerData
      sparkline) =
     [''community_data='' @ Bool2String communityData,
      ''developer_data='' @ Bool2String developerData,
      ''localization='' @ Bool2String sparkline,
      ''market_data='' @ Bool2String marketData,
      ''sparkline='' @ Bool2String sparkline,
      ''tickers='' @ Bool2String tickers]"
  by (simp add: CoinsID_params_def Values_fields_def Let_def QueryEscape_keys
      QueryEscape_Bool2String)


lemma snd_CoinsMarket:
  "vsCurrency \<noteq> [] \<Longrightarrow>
   snd (CoinsMarket sl pk dec c ctx vsCurrency ids order perPage page sparkline pcp w)
     = snd (MakeReq sl c ctx (url c @ ''/coins/markets?'' @ Values_Encode
             (CoinsMarket_params pk vsCurrency ids order perPage page sparkline pcp)) w)"
  by (simp add: CoinsMarket_def Let_def split: prod.splits sum.splits option.splits)


text \<open>
  The query of \<open>CoinsID\<close> always has the six fields, each \<open>true\<close> or \<open>false\<close>;
  \<open>localization\<close> carries the value of the argument \<open>sparkline\<close> (lemma
  \<open>CoinsID_fields\<close>), whatever the argument \<open>localization\<close> is.
\<close>

lemma snd_CoinsID:
  "id' \<noteq> [] \<Longrightarrow>
   snd (CoinsID sl dec c ctx id' localization tickers marketData communityData developerData
          sparkline w)
     = snd (MakeReq sl c ctx (url c @ ''/coins/'' @ id' @ ''?'' @ Values_Encode
             (CoinsID_params localization tickers marketData communityData developerData
                sparkline)) w)"
  by (simp add: CoinsID_def Let_def split: prod.splits sum.splits option.splits)

text \<open>
  C2 at a failing input. The caller asks for \<open>localization = true\<close> and
  \<open>sparkline = false\<close>; the request that goes out carries \<open>localization=false\<close>,
  the value of \<open>sparkline\<close>.
\<close>

theorem CoinsID_failing_input:
  "snd (CoinsID mock_stdlib (reject_decoder ''x'' :: unit decoder) (mock_Client 200 ''{}'') ()
          ''bitcoin'' True False False False False False [])
     = [get_request (''https://api.coingecko.com/api/v3/coins/bitcoin?''
          @ ''community_data=false&developer_data=false&localization=false''
          @ ''&market_data=false&sparkline=false&tickers=false'')]"
  by (simp add: snd_CoinsID snd_MakeReq mock_stdlib_def mock_Client_def
      NewClient_def NewClientWithURL_def baseURL_def accept_url_def get_request_def
      sent_request_def Values_Encode_def CoinsID_fields Bool2String_def)

subsection \<open>Decoding\<close>

text \<open>
  Each operation after its request: when \<open>MakeReq\<close> has returned the body for the URL
  of the operation, the result is what the operation makes of \<open>json.Unmarshal\<close> on that
  body.
\<close>

lemma nil_tail:
  "fst (case Unmarshal_nil dec body of
          (data, Some err) \<Rightarrow> (Return None (Some err), w')
        | (data, None) \<Rightarrow> (Return data None, w'))
     = (case snd (Unmarshal_nil dec body) of
          Some err \<Rightarrow> Return None (Some err)
        | None \<Rightarrow> Return (fst (Unmarshal_nil dec body)) None)"
  by (simp split: prod.splits option.splits)

lemma Ping_ok:
  assumes "fst (MakeReq sl c ctx (url c @ ''/ping'') w) = Inr body"
  shows "fst (Ping sl dec c ctx w)
     = (case snd (Unmarshal_nil dec body) of
          Some err \<Rightarrow> Return None (Some err)
        | None \<Rightarrow> Return (fst (Unmarshal_nil dec body)) None)"
  using assms
  by (cases "MakeReq sl c ctx (url c @ ''/ping'') w")
    (simp add: Ping_def Let_def nil_tail)

lemma SimpleSupportedVSCurrencies_ok:
  assumes "fst (MakeReq sl c ctx (url c @ ''/simple/supported_vs_currencies'') w) = Inr body"
  shows "fst (SimpleSupportedVSCurrencies sl dec c ctx w)
     = (case snd (Unmarshal_nil dec body) of
          Some err \<Rightarrow> Return None (Some err)
        | None \<Rightarrow> Return (fst (Unmarshal_nil dec body)) None)"
  using assms
  by (cases "MakeReq sl c ctx (url c @ ''/simple/supported_vs_currencies'') w")
    (simp add: SimpleSupportedVSCurrencies_def Let_def nil_tail)

lemma CoinsList_ok:
  assumes "fst (MakeReq sl c ctx (url c @ ''/coins/list?'' @ Values_Encode
              (Values_Set ''include_platform'' (Bool2String includePlatform) [])) w) = Inr body"
  shows "fst (CoinsList sl dec c ctx includePlatform w)
     = (case snd (Unmarshal_nil dec body) of
          Some err \<Rightarrow> Return None (Some err)
        | None \<Rightarrow> Return (fst (Unmarshal_nil dec body)) None)"
  using assms
  by (cases "MakeReq sl c ctx (url c @ ''/coins/list?'' @ Values_Encode
              (Values_Set ''include_platform'' (Bool2String includePlatform) [])) w")
    (simp add: CoinsList_def Let_def nil_tail)

lemma CoinsMarket_ok:
  assumes "fst (MakeReq sl c ctx (url c @ ''/coins/markets?'' @ Values_Encode
              (CoinsMarket_params pk vsCurrency ids order perPage page sparkline pcp)) w) = Inr body"
    and "vsCurrency \<noteq> []"
  shows "fst (CoinsMarket sl pk dec c ctx vsCurrency ids order perPage page sparkline pcp w)
     = (case snd (Unmarshal_nil dec body) of
          Some err \<Rightarrow> Return None (Some err)
        | None \<Rightarrow> Return (fst (Unmarshal_nil dec body)) None)"
  using assms
  by (cases "MakeReq sl c ctx (url c @ ''/coins/markets?'' @ Values_Encode
              (CoinsMarket_params pk vsCurrency ids order perPage page sparkline pcp)) w")
    (simp add: CoinsMarket_def Let_def nil_tail)

lemma CoinsID_ok:
  assumes "fst (MakeReq sl c ctx (url c @ ''/coins/'' @ id' @ ''?'' @ Values_Encode
              (CoinsID_params localization tickers marketData communityData developerData
                 sparkline)) w) = Inr body"
    and "id' \<noteq> []"
  shows "fst (CoinsID sl dec c ctx id' localization tickers marketData communityData
               developerData sparkline w)
     = (case snd (Unmarshal_nil dec body) of
          Some err \<Rightarrow> Return None (Some err)
        | None \<Rightarrow> Return (fst (Unmarshal_nil dec body)) None)"
  using assms
  by (cases "MakeReq sl c ctx (url c @ ''/coins/'' @ id' @ ''?'' @ Values_Encode
              (CoinsID_params localization tickers marketData communityData developerData
                 sparkline)) w")
    (simp add: CoinsID_def Let_def nil_tail)

lemma CoinsIDTickers_ok:
  assumes "fst (MakeReq sl c ctx (url c @ ''/coins/'' @ id' @ ''/tickers?'' @ Values_Encode
              (if page > 0 then Values_Add ''page'' (Int2String pk page) [] else [])) w) = Inr body"
    and "id' \<noteq> []"
  shows "fst (CoinsIDTickers sl pk dec c ctx id' page w)
     = (case snd (Unmarshal_nil dec body) of
          Some err \<Rightarrow> Return None (Some err)
        | None \<Rightarrow> Return (fst (Unmarshal_nil dec body)) None)"
  using assms
  by (cases "MakeReq sl c ctx (url c @ ''/coins/'' @ id' @ ''/tickers?'' @ Values_Encode
              (if page > 0 then Values_Add ''page'' (Int2String pk page) [] else [])) w")
    (simp add: CoinsIDTickers_def Let_def nil_tail)

lemma CoinsIDHistory_ok:
  assumes "fst (MakeReq sl c ctx (url c @ ''/coins/'' @ id' @ ''/history?'' @ Values_Encode
              (Values_Add ''localization'' (Bool2String localization)
                 (Values_Add ''date'' date []))) w) = Inr body"
    and "id' \<noteq> []"
    and "date \<noteq> []"
  shows "fst (CoinsIDHistory sl dec c ctx id' date localization w)
     = (case snd (Unmarshal_nil dec body) of
          Some err \<Rightarrow> Return None (Some err)
        | None \<Rightarrow> Return (fst (Unmarshal_nil dec body)) None)"
  using assms
  by (cases "MakeReq sl c ctx (url c @ ''/coins/'' @ id' @ ''/history?'' @ Values_Encode
              (Values_Add ''localization'' (Bool2String localization)
                 (Values_Add ''date'' date []))) w")
    (simp add: CoinsIDHistory_def Let_def nil_tail)

lemma EventsTypes_ok:
  assumes "fst (MakeReq sl c ctx (url c @ ''/events/types'') w) = Inr body"
  shows "fst (EventsTypes sl dec c ctx w)
     = (case snd (Unmarshal_nil dec body) of
          Some err \<Rightarrow> Return None (Some err)
        | None \<Rightarrow> Return (fst (Unmarshal_nil dec body)) None)"
  using assms
  by (cases "MakeReq sl c ctx (url c @ ''/events/types'') w")
    (simp add: EventsTypes_def Let_def nil_tail)

lemma AssetPlatforms_ok:
  assumes "fst (MakeReq sl c ctx (url c @ ''/asset_platforms'') w) = Inr body"
  shows "fst (AssetPlatforms sl dec c ctx w)
     = (case snd (Unmarshal_nil dec body) of
          Some err \<Rightarrow> Return None (Some err)
        | None \<Rightarrow> Return (fst (Unmarshal_nil dec body)) None)"
  using assms
  by (cases "MakeReq sl c ctx (url c @ ''/asset_platforms'') w")
    (simp add: AssetPlatforms_def Let_def nil_tail)

lemma EventsCountries_ok:
  assumes "fst (MakeReq sl c ctx (url c @ ''/events/countries'') w) = Inr body"
  shows "fst (EventsCountries sl dec c ctx w)
     = (case snd (Unmarshal_nil dec body) of
          Some err \<Rightarrow> Return None (Some err)
        | None \<Rightarrow> (case fst (Unmarshal_nil dec body) of
                     None \<Rightarrow> Panic
                   | Some data \<Rightarrow> Return (types_EventsCountries.Data data) None))"
  using assms
  by (cases "MakeReq sl c ctx (url c @ ''/events/countries'') w"; cases "Unmarshal_nil dec body")
    (simp add: EventsCountries_def Let_def split: option.splits)

lemma ExchangeRates_ok:
  assumes "fst (MakeReq sl c ctx (url c @ ''/exchange_rates'') w) = Inr body"
  shows "fst (ExchangeRates sl dec c ctx w)
     = (case snd (Unmarshal_nil dec body) of
          Some err \<Rightarrow> Return None (Some err)
        | None \<Rightarrow> (case fst (Unmarshal_nil dec body) of
                     None \<Rightarrow> Panic
                   | Some data \<Rightarrow> Return (Some (Rates data)) None))"
  using assms
  by (cases "MakeReq sl c ctx (url c @ ''/exchange_rates'') w"; cases "Unmarshal_nil dec body")
    (simp add: ExchangeRates_def Let_def split: option.splits)

lemma Global_ok:
  assumes "fst (MakeReq sl c ctx (url c @ ''/global'') w) = Inr body"
  shows "fst (Global sl dec c ctx w)
     = (case snd (Unmarshal_nil dec body) of
          Some err \<Rightarrow> Return None (Some err)
        | None \<Rightarrow> (case fst (Unmarshal_nil dec body) of
                     None \<Rightarrow> Panic
                   | Some data \<Rightarrow> Return (Some (types_GlobalResponse.Data data)) None))"
  using assms
  by (cases "MakeReq sl c ctx (url c @ ''/global'') w"; cases "Unmarshal_nil dec body")
    (simp add: Global_def Let_def split: option.splits)

lemma SimplePrice_ok:
  assumes "fst (MakeReq sl c ctx (SimplePrice_url c ids vs) w) = Inr body"
  shows "fst (SimplePrice sl dec c ctx ids vs w)
     = (case snd (Unmarshal_zero dec body []) of
          Some err \<Rightarrow> Return None (Some err)
        | None \<Rightarrow> Return (Some (fst (Unmarshal_zero dec body []))) None)"
  using assms
  by (cases "MakeReq sl c ctx (SimplePrice_url c ids vs) w")
    (simp add: SimplePrice_def Let_def split: prod.splits option.splits)

lemma SimpleSinglePrice_unfold:
  "fst (SimpleSinglePrice sl dec c ctx id' vsCurrency w)
     = (case fst (SimplePrice sl dec c ctx [ToLower sl id'] [ToLower sl vsCurrency] w) of
          Panic \<Rightarrow> Panic
        | Return t (Some err) \<Rightarrow> Return None (Some err)
        | Return None None \<Rightarrow> Panic
        | Return (Some t) None \<Rightarrow>
            if row_of t id' = []
            then Return None (Some (Errorf ''id or vsCurrency not existed''))
            else Return (Some \<lparr>ID = id', Currency = vsCurrency,
                                 MarketPrice = price_of (row_of t id') vsCurrency\<rparr>) None)"
  by (simp add: SimpleSinglePrice_def Let_def split: prod.splits outcome.splits option.splits)

lemma CoinsIDMarketChart_ok:
  assumes "fst (MakeReq sl c ctx (url c @ ''/coins/'' @ id' @ ''/market_chart?'' @ Values_Encode
              (Values_Add ''days'' days (Values_Add ''vs_currency'' vs_currency []))) w) = Inr body"
    and "id' \<noteq> []" and "vs_currency \<noteq> []" and "days \<noteq> []"
  shows "fst (CoinsIDMarketChart sl dec zero c ctx id' vs_currency days w)
     = Return (Some (fst (Unmarshal_zero dec body zero))) (snd (Unmarshal_zero dec body zero))"
  using assms
  by (cases "MakeReq sl c ctx (url c @ ''/coins/'' @ id' @ ''/market_chart?'' @ Values_Encode
              (Values_Add ''days'' days (Values_Add ''vs_currency'' vs_currency []))) w")
    (simp add: CoinsIDMarketChart_def Let_def split: prod.splits option.splits)

lemma MakeReq_ok:
  assumes "\<forall>u. request_error sl ctx u = None"
    and "\<forall>req. httpClient c req = Inr \<lparr>StatusCode = 200, Body = Inr body\<rparr>"
  shows "MakeReq sl c ctx u w = (Inr body, w @ [sent_request c ctx u])"
  using assms by (simp add: MakeReq_unfold doReq_def Let_def)

lemma mock_accepts: "\<forall>u. request_error mock_stdlib () u = None"
  by (simp add: mock_stdlib_def accept_url_def)

lemma mock_answers:
  "\<forall>req. httpClient (mock_Client code body) req = Inr \<lparr>StatusCode = code, Body = Inr body\<rparr>"
  by (simp add: mock_Client_def NewClient_def NewClientWithURL_def static_client_def)

lemma mock_MakeReq: "fst (MakeReq mock_stdlib (mock_Client 200 body) () u w) = Inr body"
  by (simp add: MakeReq_ok [OF mock_accepts mock_answers])

text \<open>
  C9 as the spec words it (the structure returned on a decode failure is partially
  populated) fails on a body that is not JSON: \<open>json.Unmarshal\<close> stores nothing, and
  \<open>CoinsIDMarketChart\<close> returns the pointer to the structure in its zero value, with the
  error.
\<close>

theorem CoinsIDMarketChart_zero_counterexample:
  "fst (CoinsIDMarketChart mock_stdlib chart_decoder zero_chart (mock_Client 200 ''not json'') ()
          ''bitcoin'' ''usd'' ''1'' [])
     = Return (Some \<lparr>chart_prices = [], chart_market_caps = []\<rparr>)
         (Some (UnmarshalError ''invalid character''))"
  by (simp add: CoinsIDMarketChart_ok [OF mock_MakeReq] Unmarshal_zero_def null_literal_def
      json_space_def chart_decoder_def zero_chart_def)

text \<open>
  C9, as the code has it. When the request of an operation has returned a body and
  \<open>json.Unmarshal\<close> reports an error on it, \<open>CoinsIDMarketChart\<close> returns the error
  together with a non-nil pointer to the structure as \<open>json.Unmarshal\<close> left it: the zero
  value after a syntax error, the fields stored so far after a type error. Each of the
  fourteen other operations returns \<open>nil\<close> with the error.
\<close>

theorem decode_failure_results:
  "(fst (MakeReq sl c ctx (url c @ ''/coins/'' @ id' @ ''/market_chart?'' @ Values_Encode
               (Values_Add ''days'' days (Values_Add ''vs_currency'' vs_currency []))) w) = Inr body
      \<and> id' \<noteq> [] \<and> vs_currency \<noteq> [] \<and> days \<noteq> [] \<and> \<not> null_literal body \<longrightarrow>
        (dmc body = SyntaxError msg \<longrightarrow>
           fst (CoinsIDMarketChart sl dmc zero c ctx id' vs_currency days w)
             = Return (Some zero) (Some (UnmarshalError msg)))
        \<and> (dmc body = TypeError m msg \<longrightarrow>
           fst (CoinsIDMarketChart sl dmc zero c ctx id' vs_currency days w)
             = Return (Some m) (Some (UnmarshalError msg))))
   \<and> (fst (MakeReq sl c ctx (SimplePrice_url c ids vsCurrencies) w) = Inr body
      \<and> snd (Unmarshal_zero d2 body []) = Some err \<longrightarrow>
        fst (SimplePrice sl d2 c ctx ids vsCurrencies w) = Return None (Some err))
   \<and> (fst (MakeReq sl c ctx (SimplePrice_url c [ToLower sl id'] [ToLower sl vs_currency]) w)
        = Inr body
      \<and> snd (Unmarshal_zero d2 body []) = Some err \<longrightarrow>
        fst (SimpleSinglePrice sl d2 c ctx id' vs_currency w) = Return None (Some err))
   \<and> (fst (MakeReq sl c ctx (url c @ ''/ping'') w) = Inr body
      \<and> snd (Unmarshal_nil d1 body) = Some err \<longrightarrow>
        fst (Ping sl d1 c ctx w) = Return None (Some err))
   \<and> (fst (MakeReq sl c ctx (url c @ ''/simple/supported_vs_currencies'') w) = Inr body
      \<and> snd (Unmarshal_nil d3 body) = Some err \<longrightarrow>
        fst (SimpleSupportedVSCurrencies sl d3 c ctx w) = Return None (Some err))
   \<and> (fst (MakeReq sl c ctx (url c @ ''/coins/list?'' @ Values_Encode
               (Values_Set ''include_platform'' (Bool2String includePlatform) [])) w) = Inr body
      \<and> snd (Unmarshal_nil d4 body) = Some err \<longrightarrow>
        fst (CoinsList sl d4 c ctx includePlatform w) = Return None (Some err))
   \<and> (fst (MakeReq sl c ctx (url c @ ''/coins/markets?'' @ Values_Encode
               (CoinsMarket_params pk vs_currency ids order perPage page sparkline
                  priceChangePercentage)) w) = Inr body \<and> vs_currency \<noteq> []
      \<and> snd (Unmarshal_nil d5 body) = Some err \<longrightarrow>
        fst (CoinsMarket sl pk d5 c ctx vs_currency ids order perPage page sparkline
               priceChangePercentage w) = Return None (Some err))
   \<and> (fst (MakeReq sl c ctx (url c @ ''/coins/'' @ id' @ ''?'' @ Values_Encode
               (CoinsID_params localization tickers marketData communityData developerData
                  sparkline)) w) = Inr body \<and> id' \<noteq> []
      \<and> snd (Unmarshal_nil d6 body) = Some err \<longrightarrow>
        fst (CoinsID sl d6 c ctx id' localization tickers marketData communityData developerData
               sparkline w) = Return None (Some err))
   \<and> (fst (MakeReq sl c ctx (url c @ ''/coins/'' @ id' @ ''/tickers?'' @ Values_Encode
               (if page > 0 then Values_Add ''page'' (Int2String pk page) [] else [])) w) = Inr body \<and> id' \<noteq> []
      \<and> snd (Unmarshal_nil d7 body) = Some err \<longrightarrow>
        fst (CoinsIDTickers sl pk d7 c ctx id' page w) = Return None (Some err))
   \<and> (fst (MakeReq sl c ctx (url c @ ''/coins/'' @ id' @ ''/history?'' @ Values_Encode
               (Values_Add ''localization'' (Bool2String localization)
                  (Values_Add ''date'' date []))) w) = Inr body \<and> id' \<noteq> [] \<and> date \<noteq> []
      \<and> snd (Unmarshal_nil d8 body) = Some err \<longrightarrow>
        fst (CoinsIDHistory sl d8 c ctx id' date localization w) = Return None (Some err))
   \<and> (fst (MakeReq sl c ctx (url c @ ''/events/countries'') w) = Inr body
      \<and> snd (Unmarshal_nil d9 body) = Some err \<longrightarrow>
        fst (EventsCountries sl d9 c ctx w) = Return None (Some err))
   \<and> (fst (MakeReq sl c ctx (url c @ ''/events/types'') w) = Inr body
      \<and> snd (Unmarshal_nil d10 body) = Some err \<longrightarrow>
        fst (EventsTypes sl d10 c ctx w) = Return None (Some err))
   \<and> (fst (MakeReq sl c ctx (url c @ ''/exchange_rates'') w) = Inr body
      \<and> snd (Unmarshal_nil d11 body) = Some err \<longrightarrow>
        fst (ExchangeRates sl d11 c ctx w) = Return None (Some err))
   \<and> (fst (MakeReq sl c ctx (url c @ ''/asset_platforms'') w) = Inr body
      \<and> snd (Unmarshal_nil d12 body) = Some err \<longrightarrow>
        fst (AssetPlatforms sl d12 c ctx w) = Return None (Some err))
   \<and> (fst (MakeReq sl c ctx (url c @ ''/global'') w) = Inr body
      \<and> snd (Unmarshal_nil d13 body) = Some err \<longrightarrow>
        fst (Global sl d13 c ctx w) = Return None (Some err))"
proof -
  have chart: "fst (MakeReq sl c ctx (url c @ ''/coins/'' @ id' @ ''/market_chart?'' @ Values_Encode
               (Values_Add ''days'' days (Values_Add ''vs_currency'' vs_currency []))) w) = Inr body
      \<and> id' \<noteq> [] \<and> vs_currency \<noteq> [] \<and> days \<noteq> [] \<and> \<not> null_literal body \<longrightarrow>
        (dmc body = SyntaxError msg \<longrightarrow>
           fst (CoinsIDMarketChart sl dmc zero c ctx id' vs_currency days w)
             = Return (Some zero) (Some (UnmarshalError msg)))
        \<and> (dmc body = TypeError m msg \<longrightarrow>
           fst (CoinsIDMarketChart sl dmc zero c ctx id' vs_currency days w)
             = Return (Some m) (Some (UnmarshalError msg)))"
    by (simp add: CoinsIDMarketChart_ok Unmarshal_zero_def)
  have price: "fst (MakeReq sl c ctx (SimplePrice_url c ids' vs') w) = Inr body
      \<and> snd (Unmarshal_zero d2 body []) = Some err \<longrightarrow>
        fst (SimplePrice sl d2 c ctx ids' vs' w) = Return None (Some err)" for ids' vs'
    by (simp add: SimplePrice_ok)
  have single: "fst (MakeReq sl c ctx (SimplePrice_url c [ToLower sl id'] [ToLower sl vs_currency]) w)
        = Inr body
      \<and> snd (Unmarshal_zero d2 body []) = Some err \<longrightarrow>
        fst (SimpleSinglePrice sl d2 c ctx id' vs_currency w) = Return None (Some err)"
    using price by (simp add: SimpleSinglePrice_unfold)
  have r_Ping: "fst (MakeReq sl c ctx (url c @ ''/ping'') w) = Inr body
      \<and> snd (Unmarshal_nil d1 body) = Some err \<longrightarrow>
        fst (Ping sl d1 c ctx w) = Return None (Some err)"
    by (simp add: Ping_ok)
  have r_SimpleSupportedVSCurrencies: "fst (MakeReq sl c ctx (url c @ ''/simple/supported_vs_currencies'') w) = Inr body
      \<and> snd (Unmarshal_nil d3 body) = Some err \<longrightarrow>
        fst (SimpleSupportedVSCurrencies sl d3 c ctx w) = Return None (Some err)"
    by (simp add: SimpleSupportedVSCurrencies_ok)
  have r_CoinsList: "fst (MakeReq sl c ctx (url c @ ''/coins/list?'' @ Values_Encode
               (Values_Set ''include_platform'' (Bool2String includePlatform) [])) w) = Inr body
      \<and> snd (Unmarshal_nil d4 body) = Some err \<longrightarrow>
        fst (CoinsList sl d4 c ctx includePlatform w) = Return None (Some err)"
    by (simp add: CoinsList_ok)
  have r_CoinsMarket: "fst (MakeReq sl c ctx (url c @ ''/coins/markets?'' @ Values_Encode
               (CoinsMarket_params pk vs_currency ids order perPage page sparkline
                  priceChangePercentage)) w) = Inr body \<and> vs_currency \<noteq> []
      \<and> snd (Unmarshal_nil d5 body) = Some err \<longrightarrow>
        fst (CoinsMarket sl pk d5 c ctx vs_currency ids order perPage page sparkline
               priceChangePercentage w) = Return None (Some err)"
    by (simp add: CoinsMarket_ok)
  have r_CoinsID: "fst (MakeReq sl c ctx (url c @ ''/coins/'' @ id' @ ''?'' @ Values_Encode
               (CoinsID_params localization tickers marketData communityData developerData
                  sparkline)) w) = Inr body \<and> id' \<noteq> []
      \<and> snd (Unmarshal_nil d6 body) = Some err \<longrightarrow>
        fst (CoinsID sl d6 c ctx id' localization tickers marketData communityData developerData
               sparkline w) = Return None (Some err)"
    by (simp add: CoinsID_ok)
  have r_CoinsIDTickers: "fst (MakeReq sl c ctx (url c @ ''/coins/'' @ id' @ ''/tickers?'' @ Values_Encode
               (if page > 0 then Values_Add ''page'' (Int2String pk page) [] else [])) w) = Inr body \<and> id' \<noteq> []
      \<and> snd (Unmarshal_nil d7 body) = Some err \<longrightarrow>
        fst (CoinsIDTickers sl pk d7 c ctx id' page w) = Return None (Some err)"
    by (simp add: CoinsIDTickers_ok)
  have r_CoinsIDHistory: "fst (MakeReq sl c ctx (url c @ ''/coins/'' @ id' @ ''/history?'' @ Values_Encode
               (Values_Add ''localization'' (Bool2String localization)
                  (Values_Add ''date'' date []))) w) = Inr body \<and> id' \<noteq> [] \<and> date \<noteq> []
      \<and> snd (Unmarshal_nil d8 body) = Some err \<longrightarrow>
        fst (CoinsIDHistory sl d8 c ctx id' date localization w) = Return None (Some err)"
    by (simp add: CoinsIDHistory_ok)
  have r_EventsCountries: "fst (MakeReq sl c ctx (url c @ ''/events/countries'') w) = Inr body
      \<and> snd (Unmarshal_nil d9 body) = Some err \<longrightarrow>
        fst (EventsCountries sl d9 c ctx w) = Return None (Some err)"
    by (simp add: EventsCountries_ok)
  have r_EventsTypes: "fst (MakeReq sl c ctx (url c @ ''/events/types'') w) = Inr body
      \<and> snd (Unmarshal_nil d10 body) = Some err \<longrightarrow>
        fst (EventsTypes sl d10 c ctx w) = Return None (Some err)"
    by (simp add: EventsTypes_ok)
  have r_ExchangeRates: "fst (MakeReq sl c ctx (url c @ ''/exchange_rates'') w) = Inr body
      \<and> snd (Unmarshal_nil d11 body) = Some err \<longrightarrow>
        fst (ExchangeRates sl d11 c ctx w) = Return None (Some err)"
    by (simp add: ExchangeRates_ok)
  have r_AssetPlatforms: "fst (MakeReq sl c ctx (url c @ ''/asset_platforms'') w) = Inr body
      \<and> snd (Unmarshal_nil d12 body) = Some err \<longrightarrow>
        fst (AssetPlatforms sl d12 c ctx w) = Return None (Some err)"
    by (simp add: AssetPlatforms_ok)
  have r_Global: "fst (MakeReq sl c ctx (url c @ ''/global'') w) = Inr body
      \<and> snd (Unmarshal_nil d13 body) = Some err \<longrightarrow>
        fst (Global sl d13 c ctx w) = Return None (Some err)"
    by (simp add: Global_ok)
  show ?thesis
    by (intro conjI)
      (rule chart price single r_Ping r_SimpleSupportedVSCurrencies r_CoinsList r_CoinsMarket
        r_CoinsID r_CoinsIDTickers r_CoinsIDHistory r_EventsCountries r_EventsTypes
        r_ExchangeRates r_AssetPlatforms r_Global)+
qed

lemma not_null_literal_docs:
  \<open>\<not> null_literal ''not json''\<close>
  \<open>\<not> null_literal ''{"prices":[[1,2]],"market_caps":7}''\<close>
  by (simp_all add: null_literal_def json_space_def)

theorem decode_failure_results_witness:
  \<open>fst (CoinsIDMarketChart mock_stdlib chart_decoder zero_chart
          (mock_Client 200 ''{"prices":[[1,2]],"market_caps":7}'') () ''bitcoin'' ''usd'' ''1'' [])
     = Return (Some \<lparr>chart_prices = [(1, 2)], chart_market_caps = []\<rparr>)
         (Some (UnmarshalError ''json: cannot unmarshal number into Go struct field''))
   \<and> fst (CoinsIDMarketChart mock_stdlib chart_decoder zero_chart (mock_Client 200 ''not json'') ()
          ''bitcoin'' ''usd'' ''1'' [])
     = Return (Some zero_chart) (Some (UnmarshalError ''invalid character''))
   \<and> fst (Ping mock_stdlib (reject_decoder ''invalid character'' :: unit decoder) (mock_Client 200 ''not json'') () [])
     = Return None (Some (UnmarshalError ''invalid character''))
   \<and> fst (SimplePrice mock_stdlib (reject_decoder ''invalid character'' :: 32 word prices decoder)
          (mock_Client 200 ''not json'') () [''bitcoin''] [''usd''] [])
     = Return None (Some (UnmarshalError ''invalid character''))
   \<and> fst (SimpleSinglePrice mock_stdlib (reject_decoder ''invalid character'' :: 32 word prices decoder)
          (mock_Client 200 ''not json'') () ''bitcoin'' ''usd'' [])
     = Return None (Some (UnmarshalError ''invalid character''))
   \<and> fst (SimpleSupportedVSCurrencies mock_stdlib (reject_decoder ''invalid character'' :: unit decoder)
          (mock_Client 200 ''not json'') () [])
     = Return None (Some (UnmarshalError ''invalid character''))
   \<and> fst (CoinsList mock_stdlib (reject_decoder ''invalid character'' :: unit decoder)
          (mock_Client 200 ''not json'') () False [])
     = Return None (Some (UnmarshalError ''invalid character''))
   \<and> fst (CoinsMarket mock_stdlib mock_packages (reject_decoder ''invalid character'' :: unit decoder)
          (mock_Client 200 ''not json'') () ''usd'' [''bitcoin''] [] 0 0 False [] [])
     = Return None (Some (UnmarshalError ''invalid character''))
   \<and> fst (CoinsID mock_stdlib (reject_decoder ''invalid character'' :: unit decoder)
          (mock_Client 200 ''not json'') () ''bitcoin'' False False False False False False [])
     = Return None (Some (UnmarshalError ''invalid character''))
   \<and> fst (CoinsIDTickers mock_stdlib mock_packages (reject_decoder ''invalid character'' :: unit decoder)
          (mock_Client 200 ''not json'') () ''bitcoin'' 0 [])
     = Return None (Some (UnmarshalError ''invalid character''))
   \<and> fst (CoinsIDHistory mock_stdlib (reject_decoder ''invalid character'' :: unit decoder)
          (mock_Client 200 ''not json'') () ''bitcoin'' ''30-12-2017'' False [])
     = Return None (Some (UnmarshalError ''invalid character''))
   \<and> fst (EventsCountries mock_stdlib (reject_decoder ''invalid character'' :: unit types_EventsCountries decoder)
          (mock_Client 200 ''not json'') () [])
     = Return None (Some (UnmarshalError ''invalid character''))
   \<and> fst (EventsTypes mock_stdlib (reject_decoder ''invalid character'' :: unit decoder)
          (mock_Client 200 ''not json'') () [])
     = Return None (Some (UnmarshalError ''invalid character''))
   \<and> fst (ExchangeRates mock_stdlib (reject_decoder ''invalid character'' :: unit types_ExchangeRatesResponse decoder)
          (mock_Client 200 ''not json'') () [])
     = Return None (Some (UnmarshalError ''invalid character''))
   \<and> fst (AssetPlatforms mock_stdlib (reject_decoder ''invalid character'' :: unit decoder)
          (mock_Client 200 ''not json'') () [])
     = Return None (Some (UnmarshalError ''invalid character''))
   \<and> fst (Global mock_stdlib (reject_decoder ''invalid character'' :: unit types_GlobalResponse decoder)
          (mock_Client 200 ''not json'') () [])
     = Return None (Some (UnmarshalError ''invalid character''))\<close>
  using decode_failure_results [where c = \<open>mock_Client 200 ''{"prices":[[1,2]],"market_caps":7}''\<close>
      and body = \<open>''{"prices":[[1,2]],"market_caps":7}''\<close>
      and m = "\<lparr>chart_prices = [(1, 2)], chart_market_caps = []\<rparr>"
      and msg = "''json: cannot unmarshal number into Go struct field''"
      and sl = mock_stdlib and ctx = "()" and w = "[]"
      and id' = "''bitcoin''" and vs_currency = "''usd''" and days = "''1''"
      and date = "''30-12-2017''" and dmc = chart_decoder and zero = zero_chart
      and pk = mock_packages and ids = "[''bitcoin'']" and vsCurrencies = "[''usd'']"
      and order = "[]" and perPage = 0 and page = 0 and sparkline = False
      and priceChangePercentage = "[]" and includePlatform = False and localization = False
      and tickers = False and marketData = False and communityData = False
      and developerData = False
      and ?d1.0 = "reject_decoder ''invalid character'' :: unit decoder"
      and ?d2.0 = "reject_decoder ''invalid character'' :: 32 word prices decoder"
      and ?d3.0 = "reject_decoder ''invalid character'' :: unit decoder"
      and ?d4.0 = "reject_decoder ''invalid character'' :: unit decoder"
      and ?d5.0 = "reject_decoder ''invalid character'' :: unit decoder"
      and ?d6.0 = "reject_decoder ''invalid character'' :: unit decoder"
      and ?d7.0 = "reject_decoder ''invalid character'' :: unit decoder"
      and ?d8.0 = "reject_decoder ''invalid character'' :: unit decoder"
      and ?d9.0 = "reject_decoder ''invalid character'' :: unit types_EventsCountries decoder"
      and ?d10.0 = "reject_decoder ''invalid character'' :: unit decoder"
      and ?d11.0 = "reject_decoder ''invalid character'' :: unit types_ExchangeRatesResponse decoder"
      and ?d12.0 = "reject_decoder ''invalid character'' :: unit decoder"
      and ?d13.0 = "reject_decoder ''invalid character'' :: unit types_GlobalResponse decoder"
      and err = "UnmarshalError ''invalid character''"]
    decode_failure_results [where c = "mock_Client 200 ''not json''" and body = "''not json''"
      and m = zero_chart and msg = "''invalid character''"
      and sl = mock_stdlib and ctx = "()" and w = "[]"
      and id' = "''bitcoin''" and vs_currency = "''usd''" and days = "''1''"
      and date = "''30-12-2017''" and dmc = chart_decoder and zero = zero_chart
      and pk = mock_packages and ids = "[''bitcoin'']" and vsCurrencies = "[''usd'']"
      and order = "[]" and perPage = 0 and page = 0 and sparkline = False
      and priceChangePercentage = "[]" and includePlatform = False and localization = False
      and tickers = False and marketData = False and communityData = False
      and developerData = False
      and ?d1.0 = "reject_decoder ''invalid character'' :: unit decoder"
      and ?d2.0 = "reject_decoder ''invalid character'' :: 32 word prices decoder"
      and ?d3.0 = "reject_decoder ''invalid character'' :: unit decoder"
      and ?d4.0 = "reject_decoder ''invalid character'' :: unit decoder"
      and ?d5.0 = "reject_decoder ''invalid character'' :: unit decoder"
      and ?d6.0 = "reject_decoder ''invalid character'' :: unit decoder"
      and ?d7.0 = "reject_decoder ''invalid character'' :: unit decoder"
      and ?d8.0 = "reject_decoder ''invalid character'' :: unit decoder"
      and ?d9.0 = "reject_decoder ''invalid character'' :: unit types_EventsCountries decoder"
      and ?d10.0 = "reject_decoder ''invalid character'' :: unit decoder"
      and ?d11.0 = "reject_decoder ''invalid character'' :: unit types_ExchangeRatesResponse decoder"
      and ?d12.0 = "reject_decoder ''invalid character'' :: unit decoder"
      and ?d13.0 = "reject_decoder ''invalid character'' :: unit types_GlobalResponse decoder"
      and err = "UnmarshalError ''invalid character''"]
  by (simp add: mock_MakeReq not_null_literal_docs Unmarshal_nil_def Unmarshal_zero_def
      reject_decoder_def chart_decoder_def)

text \<open>
  C10. Take a transport that answers 200 with the JSON literal \<open>null\<close> (alone, between
  optional white space). \<open>json.Unmarshal\<close> leaves the pointer \<open>nil\<close> and reports no
  error, and \<open>EventsCountries\<close>, \<open>ExchangeRates\<close> and \<open>Global\<close> panic on the field
  they read through it.
\<close>

theorem null_body_panics:
  assumes "\<forall>u. request_error sl ctx u = None"
    and "\<forall>req. httpClient c req = Inr \<lparr>StatusCode = 200, Body = Inr body\<rparr>"
    and "null_literal body"
  shows "fst (EventsCountries sl d1 c ctx w) = Panic
     \<and> fst (ExchangeRates sl d2 c ctx w) = Panic
     \<and> fst (Global sl d3 c ctx w) = Panic"
proof -
  have mk: "fst (MakeReq sl c ctx u w) = Inr body" for u
    using assms(1,2) by (simp add: MakeReq_ok)
  show ?thesis
    using assms(3)
    by (simp add: EventsCountries_ok [OF mk] ExchangeRates_ok [OF mk] Global_ok [OF mk]
        Unmarshal_nil_def)
qed

lemma null_literal_null: "null_literal ''null''"
  by (simp add: null_literal_def json_space_def)

theorem null_body_panics_witness:
  "null_literal ''null''
   \<and> fst (EventsCountries mock_stdlib (reject_decoder ''x'' :: unit types_EventsCountries decoder)
          (mock_Client 200 ''null'') () []) = Panic
   \<and> fst (ExchangeRates mock_stdlib (reject_decoder ''x'' :: unit types_ExchangeRatesResponse decoder)
          (mock_Client 200 ''null'') () []) = Panic
   \<and> fst (Global mock_stdlib (reject_decoder ''x'' :: unit types_GlobalResponse decoder)
          (mock_Client 200 ''null'') () []) = Panic"
  using null_body_panics [OF mock_accepts mock_answers null_literal_null,
      of "reject_decoder ''x'' :: unit types_EventsCountries decoder" "[]"
         "reject_decoder ''x'' :: unit types_ExchangeRatesResponse decoder"
         "reject_decoder ''x'' :: unit types_GlobalResponse decoder"]
    null_literal_null
  by simp


text \<open>
  What \<open>SimpleSinglePrice\<close> does agree on with \<open>SimplePrice\<close>: for an identifier and
  a currency that are already in lower case, it returns the price of the cell when the
  cell is there, and the not-found error when the row is missing or empty. A row that is
  there without the cell gives the price 0 and no error.
\<close>

lemma SimpleSinglePrice_on_lower_case:
  assumes "ToLower sl id' = id'" and "ToLower sl vsCurrency = vsCurrency"
    and "fst (SimplePrice sl dec c ctx [id'] [vsCurrency] w) = Return (Some t) None"
  shows "(map_of (row_of t id') vsCurrency = Some v \<longrightarrow>
            fst (SimpleSinglePrice sl dec c ctx id' vsCurrency w)
              = Return (Some \<lparr>ID = id', Currency = vsCurrency, MarketPrice = v\<rparr>) None)
       \<and> (row_of t id' = [] \<longrightarrow>
            fst (SimpleSinglePrice sl dec c ctx id' vsCurrency w)
              = Return None (Some (Errorf ''id or vsCurrency not existed'')))
       \<and> (row_of t id' \<noteq> [] \<and> map_of (row_of t id') vsCurrency = None \<longrightarrow>
            fst (SimpleSinglePrice sl dec c ctx id' vsCurrency w)
              = Return (Some \<lparr>ID = id', Currency = vsCurrency, MarketPrice = 0\<rparr>) None)"
  using assms by (auto simp add: SimpleSinglePrice_unfold price_of_def)

text \<open>
  C1 at a failing input. The server answers \<open>{"bitcoin":{"usd":5}}\<close> (the price is the
  \<open>float32\<close> 5.0, bit pattern \<open>0x40A00000\<close>) and the caller asks for \<open>bitcoin\<close> in
  \<open>USD\<close>. \<open>SimplePrice\<close> with these arguments returns a table that has no cell
  (\<open>bitcoin\<close>, \<open>USD\<close>), so the claim asks for the not-found error.
  \<open>SimpleSinglePrice\<close> sends the lower-cased request, finds the row \<open>bitcoin\<close> not
  empty, reads the missing key \<open>USD\<close> as zero and returns the price 0 with no error.
\<close>

theorem SimpleSinglePrice_failing_input:
  \<open>fst (SimplePrice mock_stdlib bitcoin_decoder (mock_Client 200 ''{"bitcoin":{"usd":5}}'') ()
          [''bitcoin''] [''USD''] [])
     = Return (Some [(''bitcoin'', [(''usd'', 0x40A00000)])]) None
   \<and> map_of (row_of [(''bitcoin'', [(''usd'', 0x40A00000 :: 32 word)])] ''bitcoin'') ''USD'' = None
   \<and> fst (SimpleSinglePrice mock_stdlib bitcoin_decoder (mock_Client 200 ''{"bitcoin":{"usd":5}}'')
          () ''bitcoin'' ''USD'' [])
     = Return (Some \<lparr>ID = ''bitcoin'', Currency = ''USD'', MarketPrice = 0\<rparr>) None\<close>
  by (simp add: SimpleSinglePrice_def SimplePrice_def MakeReq_unfold doReq_def mock_stdlib_def
      mock_Client_def NewClient_def NewClientWithURL_def accept_url_def static_client_def
      Unmarshal_zero_def null_literal_def json_space_def bitcoin_decoder_def bitcoin_usd_def
      row_of_def price_of_def)


subsection \<open>The query of \<open>CoinsMarket\<close>\<close>

lemma CoinsMarket_params_map_of:
  "map_of (CoinsMarket_params pk vsCurrency ids order perPage page sparkline pcp) ''order''
     = Some [if order = [] then MarketCapDesc pk else order]"
  "map_of (CoinsMarket_params pk vsCurrency ids order perPage page sparkline pcp) ''per_page''
     = (if 0 < perPage \<and> perPage \<le> 250 then Some [Int2String pk perPage] else None)"
  "map_of (CoinsMarket_params pk vsCurrency ids order perPage page sparkline pcp) ''page''
     = (if 0 < perPage \<and> perPage \<le> 250 then Some [Int2String pk page] else None)"
  by (simp_all add: CoinsMarket_params_def Let_def)

text \<open>
  C5. The query values of \<open>CoinsMarket\<close> have neither \<open>per_page\<close> nor \<open>page\<close> when
  \<open>perPage\<close> is at most 0 or above 250, and have both, with the caller's two numbers,
  when \<open>perPage\<close> is in between. \<open>order\<close> is the caller's, or
  \<open>types.OrderTypeObject.MarketCapDesc\<close> when the caller's is empty. The fields of the
  encoded query are exactly the ones listed, and it is this query that is requested.
\<close>

theorem CoinsMarket_paging:
  "let params = CoinsMarket_params pk vsCurrency ids order perPage page sparkline
                  priceChangePercentage
   in (perPage \<le> 0 \<or> 250 < perPage \<longrightarrow>
         \<not> Values_Has params ''per_page'' \<and> \<not> Values_Has params ''page'')
    \<and> (0 < perPage \<and> perPage \<le> 250 \<longrightarrow>
         map_of params ''per_page'' = Some [Int2String pk perPage]
         \<and> map_of params ''page'' = Some [Int2String pk page])
    \<and> (order = [] \<longrightarrow> map_of params ''order'' = Some [MarketCapDesc pk])
    \<and> (order \<noteq> [] \<longrightarrow> map_of params ''order'' = Some [order])
    \<and> Values_fields params =
         (if ids \<noteq> [] then [''ids='' @ QueryEscape (Join ids '','')] else [])
         @ [''order='' @ QueryEscape (if order = [] then MarketCapDesc pk else order)]
         @ (if 0 < perPage \<and> perPage \<le> 250
            then [''page='' @ QueryEscape (Int2String pk page),
                  ''per_page='' @ QueryEscape (Int2String pk perPage)]
            else [])
         @ (if priceChangePercentage \<noteq> []
            then [''price_change_percentage='' @ QueryEscape (Join priceChangePercentage '','')]
            else [])
         @ [''sparkline='' @ Bool2String sparkline, ''vs_currency='' @ QueryEscape vsCurrency]
    \<and> (vsCurrency \<noteq> [] \<longrightarrow>
         snd (CoinsMarket sl pk dec c ctx vsCurrency ids order perPage page sparkline
                priceChangePercentage w)
           = snd (MakeReq sl c ctx (url c @ ''/coins/markets?'' @ Join (Values_fields params) ''&'')
                    w))"
  unfolding Let_def
  by (simp add: Values_Has_def CoinsMarket_params_map_of CoinsMarket_fields snd_CoinsMarket
      Values_Encode_def del: Join.simps)

lemma fmt_d_small: "fmt_d 100 = ''100''" "fmt_d 2 = ''2''"
  by (simp_all add: fmt_d_def nat_digits.simps digit_char_def)

theorem CoinsMarket_paging_witness:
  "Values_fields (CoinsMarket_params mock_packages ''usd'' [''bitcoin'', ''ethereum''] [] 100 2
      False [])
     = [''ids=bitcoin%2Cethereum'', ''order=market_cap_desc'', ''page=2'', ''per_page=100'',
        ''sparkline=false'', ''vs_currency=usd'']
   \<and> Values_fields (CoinsMarket_params mock_packages ''usd'' [] ''volume_desc'' 251 2 True [''24h''])
     = [''order=volume_desc'', ''price_change_percentage=24h'', ''sparkline=true'',
        ''vs_currency=usd'']
   \<and> snd (CoinsMarket mock_stdlib mock_packages (reject_decoder ''x'' :: unit decoder)
            (mock_Client 200 ''[]'') () ''usd'' [] [] 0 2 False [] [])
     = [get_request (''https://api.coingecko.com/api/v3/coins/markets?''
          @ ''order=market_cap_desc&sparkline=false&vs_currency=usd'')]"
  using CoinsMarket_paging [of mock_packages "''usd''" "[''bitcoin'', ''ethereum'']" "[]" 100 2
      False "[]" mock_stdlib "reject_decoder ''x'' :: unit decoder" "mock_Client 200 ''[]''" "()" "[]"]
    CoinsMarket_paging [of mock_packages "''usd''" "[]" "''volume_desc''" 251 2
      True "[''24h'']" mock_stdlib "reject_decoder ''x'' :: unit decoder" "mock_Client 200 ''[]''" "()" "[]"]
    CoinsMarket_paging [of mock_packages "''usd''" "[]" "[]" 0 2
      False "[]" mock_stdlib "reject_decoder ''x'' :: unit decoder" "mock_Client 200 ''[]''" "()" "[]"]
  by (simp add: Let_def mock_packages_def fmt_d_small Bool2String_def QueryEscape_def
      escape_byte_def shouldEscape_def upperhex_def snd_MakeReq mock_accepts sent_request_def
      get_request_def mock_Client_def NewClient_def NewClientWithURL_def baseURL_def)

end
